theory Spec2Isabelle
  imports Main "HOL-Library.AList"
begin

section \<open>Values, the heap and the console\<close>

text \<open>
  The transformer of \<^verbatim>\<open>src/data-transform.js\<close> works on JavaScript objects, which are
  shared by reference: the value extracted from the source and written into the result is
  the very object the source holds. The model therefore keeps objects in a heap. A value
  is a primitive or a reference to a heap cell; a cell is a plain object or an array and
  holds its own enumerable properties in insertion order (an array's are its indices
  \<^verbatim>\<open>"0"\<close>, \<^verbatim>\<open>"1"\<close>, ...). The host lists integer-like keys of a plain object before
  the others; nothing below depends on that order. Numbers are restricted to the
  integers, and function values occur only as the callbacks of an instruction.
\<close>

datatype jsval = Undefined | Null | Bool bool | Num int | Str string | Ref nat

datatype cell =
    ObjectCell (props: "(string \<times> jsval) list")
  | ArrayCell (props: "(string \<times> jsval) list")

type_synonym heap = "cell list"

text \<open>The state a call runs in: the heap and the lines written with \<^verbatim>\<open>console.warn\<close>.\<close>

record state =
  heap :: heap
  console :: "string list"

definition lookupCell :: "heap \<Rightarrow> jsval \<Rightarrow> cell option" where
  "lookupCell h v = (case v of Ref a \<Rightarrow> (if a < length h then Some (h ! a) else None) | _ \<Rightarrow> None)"

definition setProp :: "string \<Rightarrow> jsval \<Rightarrow> cell \<Rightarrow> cell" where
  "setProp k v c =
     (case c of ObjectCell ps \<Rightarrow> ObjectCell (AList.update k v ps)
      | ArrayCell ps \<Rightarrow> ArrayCell (AList.update k v ps))"

definition digit :: "nat \<Rightarrow> char" where
  "digit d = ''0123456789'' ! d"

fun showNat :: "nat \<Rightarrow> string" where
  "showNat n = (if n < 10 then [digit n] else showNat (n div 10) @ [digit (n mod 10)])"

declare showNat.simps [simp del]

definition showInt :: "int \<Rightarrow> string" where
  "showInt i = (if i < 0 then CHR ''-'' # showNat (nat (- i)) else showNat (nat i))"

text \<open>An array literal \<^verbatim>\<open>[v0, v1, ...]\<close> as a cell.\<close>

definition arrayLiteral :: "jsval list \<Rightarrow> cell" where
  "arrayLiteral vs = ArrayCell (zip (map showNat [0..<length vs]) vs)"

text \<open>
  The elements \<^verbatim>\<open>Array.prototype.map\<close> visits. They are taken as the array holds
  them when the iteration starts.
\<close>

definition arrayElements :: "heap \<Rightarrow> jsval \<Rightarrow> jsval list" where
  "arrayElements h v = (case lookupCell h v of Some c \<Rightarrow> map snd (props c) | None \<Rightarrow> [])"

text \<open>\<^verbatim>\<open>String.prototype.split\<close> on one character and \<^verbatim>\<open>Array.prototype.join\<close>.\<close>

fun splitString :: "char \<Rightarrow> string \<Rightarrow> string list" where
  "splitString c [] = [[]]"
| "splitString c (x # xs) =
     (if x = c then [] # splitString c xs
      else (case splitString c xs of w # ws \<Rightarrow> (x # w) # ws | [] \<Rightarrow> [[x]]))"

fun joinStrings :: "string \<Rightarrow> string list \<Rightarrow> string" where
  "joinStrings sep [] = []"
| "joinStrings sep [x] = x"
| "joinStrings sep (x # y # ys) = x @ sep @ joinStrings sep (y # ys)"

text \<open>JavaScript truthiness, as \<^verbatim>\<open>if (v)\<close> and \<^verbatim>\<open>v ? a : b\<close> test it.\<close>

definition truthy :: "jsval \<Rightarrow> bool" where
  "truthy v =
     (case v of Undefined \<Rightarrow> False | Null \<Rightarrow> False | Bool b \<Rightarrow> b | Num n \<Rightarrow> n \<noteq> 0
      | Str s \<Rightarrow> s \<noteq> [] | Ref a \<Rightarrow> True)"

section \<open>Paths, instructions and errors\<close>

text \<open>
  A path is \<^verbatim>\<open>null\<close>, a dot path (a string) or an array path whose segments may be
  any primitive; only strings and numbers are legal segments.
\<close>

datatype segment = SegStr string | SegNum int | SegNull | SegUndefined | SegBool bool

datatype keypath = DotPath string | ArrayPath "segment list"

datatype path = PathNull | Path keypath

text \<open>
  The \<^verbatim>\<open>from\<close> field of an instruction: absent (\<^verbatim>\<open>undefined\<close>), a path, or the object
  \<^verbatim>\<open>{paths, combine}\<close> where \<^verbatim>\<open>combine\<close> is optional. The \<^verbatim>\<open>transform\<close> field is
  any value (\<^verbatim>\<open>undefined\<close> when absent) or a function. The \<^verbatim>\<open>instructions\<close> argument is
  one instruction or an array of them.
\<close>

datatype 'c from_field = FromUndefined | FromPath path | FromPaths "path list" "'c option"

datatype 'f transform_field = TransformValue jsval | TransformFunction 'f

datatype 'i instructions_arg = Single 'i | Several "'i list"

text \<open>
  Whatever is thrown: the transformer's own \<^verbatim>\<open>DataTransformError\<close> with its message and
  the instruction it carries, the accessor's \<^verbatim>\<open>DeepPropertyError\<close> with its message, or
  any other value. A callback is a function of its arguments and the heap that returns a
  value and a heap, or throws; \<^verbatim>\<open>transform\<close> receives the value, the result object built
  so far and the source object.
\<close>

datatype error =
    DataTransformError string "instruction option"
  | DeepPropertyError string
  | Thrown jsval
and instruction = Instruction
    (from': "(jsval list \<Rightarrow> heap \<Rightarrow> error + jsval \<times> heap) from_field")
    (to': "path option")
    (instructions: "instruction instructions_arg option")
    (transform: "(jsval \<Rightarrow> jsval \<Rightarrow> jsval \<Rightarrow> heap \<Rightarrow> error + jsval \<times> heap) transform_field")
    (default': jsval)

record options =
  warn :: bool

text \<open>
  The two functions imported from the package \<^verbatim>\<open>@szydlovski/deep-property\<close>, which is not
  part of this repository: the transformer is modelled over any pair of them. Extraction
  reads the heap and returns \<^verbatim>\<open>[exists, value]\<close>; assignment returns the heap it leaves.
\<close>

record accessor =
  extractDeepProperty :: "heap \<Rightarrow> jsval \<Rightarrow> keypath \<Rightarrow> error + bool \<times> jsval"
  setDeepProperty :: "heap \<Rightarrow> jsval \<Rightarrow> keypath \<Rightarrow> jsval \<Rightarrow> error + heap"

section \<open>The transformer\<close>

definition extractProperty ::
  "accessor \<Rightarrow> heap \<Rightarrow> jsval \<Rightarrow> path \<Rightarrow> error + bool \<times> jsval" where
  "extractProperty acc h sourceObject p =
     (case p of PathNull \<Rightarrow> Inr (True, sourceObject)
      | Path kp \<Rightarrow> extractDeepProperty acc h sourceObject kp)"

text \<open>\<^verbatim>\<open>xs.map(f)\<close> for an \<^verbatim>\<open>f\<close> that may throw: the first throw ends the iteration.\<close>

fun mapE :: "('a \<Rightarrow> error + 'b) \<Rightarrow> 'a list \<Rightarrow> error + 'b list" where
  "mapE f [] = Inr []"
| "mapE f (x # xs) =
     (case f x of Inl e \<Rightarrow> Inl e
      | Inr y \<Rightarrow> (case mapE f xs of Inl e \<Rightarrow> Inl e | Inr ys \<Rightarrow> Inr (y # ys)))"

definition extractCombinedProperties ::
  "accessor \<Rightarrow> heap \<Rightarrow> jsval \<Rightarrow> path list \<Rightarrow> (jsval list \<Rightarrow> heap \<Rightarrow> error + jsval \<times> heap) option
     \<Rightarrow> error + (bool \<times> jsval) \<times> heap" where
  "extractCombinedProperties acc h sourceObject paths combine =
     (case mapE (extractProperty acc h sourceObject) paths of
        Inl e \<Rightarrow> Inl e
      | Inr extracts \<Rightarrow>
          (let allExist = foldl (\<lambda>state (exists, value). state \<and> exists) True extracts in
           if \<not> allExist then Inr ((False, Undefined), h)
           else
             (let allValues = foldl (\<lambda>values (exists, value). values @ [value]) [] extracts in
              case combine of
                Some f \<Rightarrow>
                  (case f allValues h of Inl e \<Rightarrow> Inl e | Inr (value, h') \<Rightarrow> Inr ((True, value), h'))
              | None \<Rightarrow> Inr ((True, Ref (length h)), h @ [arrayLiteral allValues]))))"

text \<open>
  \<^verbatim>\<open>typeof value === 'object' && value !== null\<close>: true of the references, to plain
  objects and to arrays alike, and of nothing else.
\<close>

definition isObject :: "jsval \<Rightarrow> bool" where
  "isObject v = (case v of Ref a \<Rightarrow> True | _ \<Rightarrow> False)"

definition isFunction :: "'f transform_field \<Rightarrow> bool" where
  "isFunction t = (case t of TransformFunction f \<Rightarrow> True | TransformValue v \<Rightarrow> False)"

text \<open>The tests \<^verbatim>\<open>instruction.transform !== undefined\<close> and \<^verbatim>\<open>instruction.from !== undefined\<close>.\<close>

definition transformDefined :: "'f transform_field \<Rightarrow> bool" where
  "transformDefined t = (case t of TransformValue v \<Rightarrow> v \<noteq> Undefined | TransformFunction f \<Rightarrow> True)"

definition fromDefined :: "'c from_field \<Rightarrow> bool" where
  "fromDefined fr = (case fr of FromUndefined \<Rightarrow> False | _ \<Rightarrow> True)"

definition isArray :: "heap \<Rightarrow> jsval \<Rightarrow> bool" where
  "isArray h v = (case lookupCell h v of Some (ArrayCell ps) \<Rightarrow> True | _ \<Rightarrow> False)"

text \<open>
  \<^verbatim>\<open>stringifyPath\<close>, on the three shapes of \<^verbatim>\<open>from\<close>. \<^verbatim>\<open>join\<close> prints \<^verbatim>\<open>null\<close> and
  \<^verbatim>\<open>undefined\<close> elements as the empty string; for a \<^verbatim>\<open>null\<close> path the function returns
  \<^verbatim>\<open>undefined\<close>, which the template strings print as such.
\<close>

definition segmentText :: "segment \<Rightarrow> string" where
  "segmentText seg =
     (case seg of SegStr s \<Rightarrow> s | SegNum n \<Rightarrow> showInt n | SegNull \<Rightarrow> [] | SegUndefined \<Rightarrow> []
      | SegBool b \<Rightarrow> (if b then ''true'' else ''false''))"

definition stringifyKeypath :: "keypath \<Rightarrow> string" where
  "stringifyKeypath kp =
     (case kp of ArrayPath segs \<Rightarrow> joinStrings '' => '' (map segmentText segs)
      | DotPath s \<Rightarrow> joinStrings '' => '' (splitString CHR ''.'' s))"

definition stringifyPathText :: "path \<Rightarrow> string" where
  "stringifyPathText p = (case p of PathNull \<Rightarrow> ''undefined'' | Path kp \<Rightarrow> stringifyKeypath kp)"

definition stringifyPath :: "'c from_field \<Rightarrow> string" where
  "stringifyPath fr =
     (case fr of FromUndefined \<Rightarrow> ''undefined''
      | FromPath p \<Rightarrow> stringifyPathText p
      | FromPaths ps c \<Rightarrow> joinStrings '','' (map (\<lambda>p. ''['' @ stringifyPathText p @ '']'') ps))"

text \<open>
  \<^verbatim>\<open>throwUnexpectedError\<close> writes a line to the console and rethrows the error. The console
  of a call that throws is not kept: only what is thrown is.
\<close>

definition throwUnexpectedError :: "error \<Rightarrow> error + 'a" where
  "throwUnexpectedError e = Inl e"

text \<open>
  The loop body of \<^verbatim>\<open>transformData\<close> is \<open>processInstruction\<close>: the validation of the
  instruction, then, in the order of the source, the extraction from the source with its
  \<^verbatim>\<open>try\<close>/\<^verbatim>\<open>catch\<close> (\<open>extractSource\<close>), the nested instructions, transform and default
  (\<open>produceValue\<close>), and the write into the result object with its \<^verbatim>\<open>try\<close>/\<^verbatim>\<open>catch\<close>
  (\<open>writeResult\<close>). The recursive call is the parameter \<open>rec\<close>; \<open>resultObject\<close> is the
  address of the result object.
\<close>

definition catchFrom ::
  "instruction \<Rightarrow> state \<Rightarrow> error + (bool \<times> jsval) \<times> heap \<Rightarrow> error + (bool \<times> jsval) \<times> state" where
  \<open>catchFrom instruction s r =
     (case r of
        Inl (DeepPropertyError message) \<Rightarrow>
          Inl (DataTransformError (''In "from": '' @ message) (Some instruction))
      | Inl e \<Rightarrow> throwUnexpectedError e
      | Inr (ex, h) \<Rightarrow> Inr (ex, s\<lparr>heap := h\<rparr>))\<close>

definition extractSource ::
  "accessor \<Rightarrow> instruction \<Rightarrow> jsval \<Rightarrow> state \<Rightarrow> error + (bool \<times> jsval) \<times> state" where
  "extractSource acc instruction sourceObject s =
     (case from' instruction of
        FromUndefined \<Rightarrow> Inl (Thrown (Str ''TypeError: Cannot read properties of undefined''))
      | FromPaths ps c \<Rightarrow>
          catchFrom instruction s (extractCombinedProperties acc (heap s) sourceObject ps c)
      | FromPath p \<Rightarrow>
          catchFrom instruction s
            (case extractProperty acc (heap s) sourceObject p of
               Inl e \<Rightarrow> Inl e | Inr ex \<Rightarrow> Inr (ex, heap s)))"

definition produceValue ::
  "(state \<Rightarrow> jsval \<Rightarrow> instruction instructions_arg \<Rightarrow> error + jsval \<times> state) \<Rightarrow> options \<Rightarrow>
     instruction \<Rightarrow> nat \<Rightarrow> jsval \<Rightarrow> bool \<times> jsval \<Rightarrow> state \<Rightarrow> error + jsval \<times> state" where
  "produceValue rec opts instruction resultObject sourceObject ex s =
     (case ex of (sourceValueExists, sourceValue) \<Rightarrow>
        if sourceValueExists then
          (case (case instructions instruction of
                   Some nested \<Rightarrow> rec s sourceValue nested
                 | None \<Rightarrow> Inr (sourceValue, s)) of
             Inl e \<Rightarrow> Inl e
           | Inr (resultValue, s1) \<Rightarrow>
               (case transform instruction of
                  TransformFunction f \<Rightarrow>
                    (case f resultValue (Ref resultObject) sourceObject (heap s1) of
                       Inl e \<Rightarrow> Inl e
                     | Inr (v, h) \<Rightarrow> Inr (v, s1\<lparr>heap := h\<rparr>))
                | TransformValue v \<Rightarrow>
                    if truthy v
                    then Inl (Thrown (Str ''TypeError: instruction.transform is not a function''))
                    else Inr (resultValue, s1)))
        else
          (let s1 = (if warn opts
                     then s\<lparr>console := console s @
                            [''Value does not exist at: '' @ stringifyPath (from' instruction)]\<rparr>
                     else s)
           in if default' instruction \<noteq> Undefined then Inr (default' instruction, s1)
              else Inr (Undefined, s1)))"

text \<open>
  \<^verbatim>\<open>Object.assign(target, value)\<close> for a \<^verbatim>\<open>value\<close> that passed \<^verbatim>\<open>isObject\<close>: every own
  property of the value is set on the target, in the value's order.
\<close>

definition objectAssign :: "heap \<Rightarrow> nat \<Rightarrow> jsval \<Rightarrow> heap" where
  "objectAssign h target v =
     (case lookupCell h v of
        Some c \<Rightarrow>
          (if target < length h
           then h[target := fold (\<lambda>(k, x). setProp k x) (props c) (h ! target)]
           else h)
      | None \<Rightarrow> h)"

definition writeResult ::
  "accessor \<Rightarrow> instruction \<Rightarrow> nat \<Rightarrow> path \<Rightarrow> jsval \<Rightarrow> state \<Rightarrow> error + state" where
  \<open>writeResult acc instruction resultObject toPath resultValue s =
     (case toPath of
        PathNull \<Rightarrow>
          (if \<not> isObject resultValue
           then Inl (DataTransformError ''Cannot assign properties from a non-object''
                       (Some instruction))
           else Inr (s\<lparr>heap := objectAssign (heap s) resultObject resultValue\<rparr>))
      | Path kp \<Rightarrow>
          (case setDeepProperty acc (heap s) (Ref resultObject) kp resultValue of
             Inl (DeepPropertyError message) \<Rightarrow>
               Inl (DataTransformError (''In "to": '' @ message) (Some instruction))
           | Inl e \<Rightarrow> throwUnexpectedError e
           | Inr h \<Rightarrow> Inr (s\<lparr>heap := h\<rparr>)))\<close>

definition processInstruction ::
  "(state \<Rightarrow> jsval \<Rightarrow> instruction instructions_arg \<Rightarrow> error + jsval \<times> state) \<Rightarrow> accessor \<Rightarrow>
     options \<Rightarrow> jsval \<Rightarrow> nat \<Rightarrow> instruction \<Rightarrow> state \<Rightarrow> error + state" where
  \<open>processInstruction rec acc opts sourceObject resultObject instruction s =
     (if transformDefined (transform instruction) \<and> \<not> isFunction (transform instruction)
      then Inl (DataTransformError ''Transform is not a function'' (Some instruction))
      else if \<not> fromDefined (from' instruction)
      then Inl (DataTransformError ''Must supply "from" key path'' (Some instruction))
      else
        (case to' instruction of
           None \<Rightarrow> Inl (DataTransformError ''Must supply "to" key path'' (Some instruction))
         | Some toPath \<Rightarrow>
             (case extractSource acc instruction sourceObject s of
                Inl e \<Rightarrow> Inl e
              | Inr (ex, s1) \<Rightarrow>
                  (case produceValue rec opts instruction resultObject sourceObject ex s1 of
                     Inl e \<Rightarrow> Inl e
                   | Inr (resultValue, s2) \<Rightarrow>
                       writeResult acc instruction resultObject toPath resultValue s2))))\<close>

text \<open>The \<^verbatim>\<open>for ... of\<close> loop over the instructions: the first throw ends it.\<close>

fun forEachInstruction ::
  "(instruction \<Rightarrow> state \<Rightarrow> error + state) \<Rightarrow> instruction list \<Rightarrow> state \<Rightarrow> error + state" where
  "forEachInstruction body [] s = Inr s"
| "forEachInstruction body (i # is) s =
     (case body i s of Inl e \<Rightarrow> Inl e | Inr s' \<Rightarrow> forEachInstruction body is s')"

text \<open>\<^verbatim>\<open>sourceObject.map(f)\<close> for an \<^verbatim>\<open>f\<close> that runs in the state and may throw.\<close>

fun mapElements ::
  "(state \<Rightarrow> jsval \<Rightarrow> error + jsval \<times> state) \<Rightarrow> jsval list \<Rightarrow> state \<Rightarrow>
     error + jsval list \<times> state" where
  "mapElements f [] s = Inr ([], s)"
| "mapElements f (x # xs) s =
     (case f s x of
        Inl e \<Rightarrow> Inl e
      | Inr (y, s1) \<Rightarrow>
          (case mapElements f xs s1 of Inl e \<Rightarrow> Inl e | Inr (ys, s2) \<Rightarrow> Inr (y # ys, s2)))"

definition toArray :: "instruction instructions_arg \<Rightarrow> instruction list" where
  "toArray ins = (case ins of Single i \<Rightarrow> [i] | Several is \<Rightarrow> is)"

text \<open>
  \<^verbatim>\<open>transformData(sourceObject, instructions, options)\<close>. The first argument bounds the depth
  of the recursion (through arrays and through nested instructions), as the call stack of
  the host does: a call that would go deeper throws the host's \<^verbatim>\<open>RangeError\<close>.
\<close>

primrec transformData ::
  "nat \<Rightarrow> accessor \<Rightarrow> options \<Rightarrow> state \<Rightarrow> jsval \<Rightarrow> instruction instructions_arg \<Rightarrow>
     error + jsval \<times> state" where
  "transformData 0 acc opts s sourceObject ins =
     Inl (Thrown (Str ''RangeError: Maximum call stack size exceeded''))"
| "transformData (Suc depth) acc opts s sourceObject ins =
     (if isArray (heap s) sourceObject then
        (case mapElements (\<lambda>s' sourceElement. transformData depth acc opts s' sourceElement ins)
                (arrayElements (heap s) sourceObject) s of
           Inl e \<Rightarrow> Inl e
         | Inr (results, s') \<Rightarrow>
             Inr (Ref (length (heap s')), s'\<lparr>heap := heap s' @ [arrayLiteral results]\<rparr>))
      else if \<not> isObject sourceObject \<and> \<not> isArray (heap s) sourceObject then
        Inl (DataTransformError ''Source must be an object or an array'' None)
      else
        (let resultObject = length (heap s);
             s0 = s\<lparr>heap := heap s @ [ObjectCell []]\<rparr>
         in case forEachInstruction
                   (processInstruction (transformData depth acc opts) acc opts sourceObject
                      resultObject)
                   (toArray ins) s0 of
              Inl e \<Rightarrow> Inl e
            | Inr s' \<Rightarrow> Inr (Ref resultObject, s')))"

text \<open>\<^verbatim>\<open>transformDataFactory(instructions)\<close>: the function that awaits the source and the options.\<close>

definition transformDataFactory ::
  "nat \<Rightarrow> accessor \<Rightarrow> instruction instructions_arg \<Rightarrow> state \<Rightarrow> jsval \<Rightarrow> options \<Rightarrow>
     error + jsval \<times> state" where
  "transformDataFactory depth acc ins = (\<lambda>s sourceObject opts. transformData depth acc opts s sourceObject ins)"

section \<open>The path accessor\<close>

text \<open>
  Modelled from the spec: the functions \<^verbatim>\<open>extractDeepProperty\<close> and \<^verbatim>\<open>setDeepProperty\<close> of
  the external package, which the repository imports and does not contain. The spec's
  section 4.1 gives their contract. A path is normalised to its keys; it is illegal when a
  segment is not a string or a number or is the empty string, and when it has no segment.
  Extraction walks the keys and reports \<^verbatim>\<open>(false, undefined)\<close> at the first key that is
  missing or whose container is not an object; a key that is present counts as existing
  whatever its value. Assignment walks all keys but the last, entering the object a key
  holds and creating a plain object where the key holds none, and sets the last key. A
  reference to no cell of the heap does not occur in the host; the model leaves the heap
  as it is there.
\<close>

definition legalSegment :: "segment \<Rightarrow> bool" where
  "legalSegment seg = (case seg of SegStr s \<Rightarrow> s \<noteq> [] | SegNum n \<Rightarrow> True | _ \<Rightarrow> False)"

definition pathKeys :: "keypath \<Rightarrow> error + string list" where
  "pathKeys kp =
     (let segs = (case kp of DotPath s \<Rightarrow> map SegStr (splitString CHR ''.'' s)
                  | ArrayPath segs \<Rightarrow> segs)
      in if segs \<noteq> [] \<and> list_all legalSegment segs then Inr (map segmentText segs)
         else Inl (DeepPropertyError ''Illegal path segment''))"

fun walkKeys :: "heap \<Rightarrow> jsval \<Rightarrow> string list \<Rightarrow> bool \<times> jsval" where
  "walkKeys h v [] = (True, v)"
| "walkKeys h v (k # ks) =
     (case lookupCell h v of
        None \<Rightarrow> (False, Undefined)
      | Some c \<Rightarrow>
          (case map_of (props c) k of
             None \<Rightarrow> (False, Undefined)
           | Some v' \<Rightarrow> walkKeys h v' ks))"

fun storeKeys :: "heap \<Rightarrow> nat \<Rightarrow> string list \<Rightarrow> jsval \<Rightarrow> heap" where
  "storeKeys h a [] v = h"
| "storeKeys h a [k] v =
     (case lookupCell h (Ref a) of None \<Rightarrow> h | Some c \<Rightarrow> h[a := setProp k v c])"
| "storeKeys h a (k # ks) v =
     (case lookupCell h (Ref a) of
        None \<Rightarrow> h
      | Some c \<Rightarrow>
          (case map_of (props c) k of
             Some (Ref b) \<Rightarrow> storeKeys h b ks v
           | _ \<Rightarrow>
               (let b = length h
                in storeKeys ((h @ [ObjectCell []])[a := setProp k (Ref b) c]) b ks v)))"

definition specExtract :: "heap \<Rightarrow> jsval \<Rightarrow> keypath \<Rightarrow> error + bool \<times> jsval" where
  "specExtract h container kp =
     (case pathKeys kp of Inl e \<Rightarrow> Inl e | Inr ks \<Rightarrow> Inr (walkKeys h container ks))"

definition specSet :: "heap \<Rightarrow> jsval \<Rightarrow> keypath \<Rightarrow> jsval \<Rightarrow> error + heap" where
  "specSet h container kp v =
     (case pathKeys kp of
        Inl e \<Rightarrow> Inl e
      | Inr ks \<Rightarrow>
          (case container of
             Ref a \<Rightarrow> Inr (storeKeys h a ks v)
           | _ \<Rightarrow> Inl (Thrown (Str ''TypeError: Cannot create property''))))"

definition specAccessor :: accessor where
  "specAccessor = \<lparr>extractDeepProperty = specExtract, setDeepProperty = specSet\<rparr>"

text \<open>
  A \<^verbatim>\<open>transform\<close> callback for the examples: it tells whether the value it receives is the
  object the nested instruction \<^verbatim>\<open>{from: 'x', to: 'y'}\<close> built from \<^verbatim>\<open>{x: 1}\<close>.
\<close>

definition sawNested :: "jsval \<Rightarrow> jsval \<Rightarrow> jsval \<Rightarrow> heap \<Rightarrow> error + jsval \<times> heap" where
  "sawNested v r src h =
     Inr (case lookupCell h v of
            Some c \<Rightarrow> (if map_of (props c) ''y'' = Some (Num 1) then Str ''nested result'' else Str ''raw value'')
          | None \<Rightarrow> Str ''raw value'', h)"

text \<open>
  What a caller observes of a call: what it throws, or the value it returns and the heap
  it leaves. The console is left out.
\<close>

definition observable :: "error + 'a \<times> state \<Rightarrow> error + 'a \<times> heap" where
  "observable r = (case r of Inl e \<Rightarrow> Inl e | Inr (v, s) \<Rightarrow> Inr (v, heap s))"

definition observableState :: "error + state \<Rightarrow> error + heap" where
  "observableState r = (case r of Inl e \<Rightarrow> Inl e | Inr s \<Rightarrow> Inr (heap s))"


text \<open>
  Callbacks for the examples: a \<^verbatim>\<open>combine\<close> and a \<^verbatim>\<open>transform\<close> that throw a
  \<^verbatim>\<open>DeepPropertyError\<close>, and a \<^verbatim>\<open>combine\<close> and a \<^verbatim>\<open>transform\<close> that throw another value.
\<close>

definition combineThrowsPathError :: "jsval list \<Rightarrow> heap \<Rightarrow> error + jsval \<times> heap" where
  "combineThrowsPathError values h = Inl (DeepPropertyError ''thrown by combine'')"


definition combineThrows :: "jsval list \<Rightarrow> heap \<Rightarrow> error + jsval \<times> heap" where
  "combineThrows values h = Inl (Thrown (Str ''thrown by combine''))"

definition transformThrows :: "jsval \<Rightarrow> jsval \<Rightarrow> jsval \<Rightarrow> heap \<Rightarrow> error + jsval \<times> heap" where
  "transformThrows v r src h = Inl (Thrown (Str ''thrown by transform''))"

section \<open>Properties\<close>

lemmas model_defs = lookupCell_def setProp_def arrayLiteral_def arrayElements_def truthy_def
  extractProperty_def extractCombinedProperties_def isObject_def isFunction_def isArray_def
  segmentText_def stringifyKeypath_def stringifyPathText_def stringifyPath_def
  throwUnexpectedError_def catchFrom_def extractSource_def produceValue_def objectAssign_def
  writeResult_def processInstruction_def toArray_def transformDefined_def fromDefined_def
  legalSegment_def pathKeys_def specExtract_def specSet_def specAccessor_def

subsection \<open>Helper lemmas on the iterations\<close>

lemma mapE_length: "mapE f xs = Inr ys \<Longrightarrow> length ys = length xs"
  by (induction xs arbitrary: ys) (auto split: sum.splits)

lemma mapE_nth: "mapE f xs = Inr ys \<Longrightarrow> k < length xs \<Longrightarrow> f (xs ! k) = Inr (ys ! k)"
proof (induction xs arbitrary: ys k)
  case Nil
  then show ?case by simp
next
  case (Cons x xs)
  then show ?case
    by (cases k) (auto split: sum.splits)
qed

lemma foldl_allExist:
  "foldl (\<lambda>state (exists, value). state \<and> exists) b extracts = (b \<and> list_all fst extracts)"
  by (induction extracts arbitrary: b) (auto split: prod.splits)

lemma foldl_allValues:
  "foldl (\<lambda>values (exists, value). values @ [value]) vs extracts = vs @ map snd extracts"
  by (induction extracts arbitrary: vs) (auto split: prod.splits)



lemma props_setProp: "map_of (props (setProp k v c)) = (map_of (props c))(k \<mapsto> v)"
  by (cases c) (simp_all add: setProp_def update_conv')

lemma fold_setProp:
  "map_of (props (fold (\<lambda>(k, x). setProp k x) kvs c)) = map_of (props c) ++ map_of (rev kvs)"
proof (induction kvs arbitrary: c)
  case Nil
  then show ?case by simp
next
  case (Cons kv kvs)
  obtain k x where kv: "kv = (k, x)" by (cases kv)
  have "(map_of (props c))(k \<mapsto> x) ++ map_of (rev kvs) =
      map_of (props c) ++ ([k \<mapsto> x] ++ map_of (rev kvs))"
    by (auto simp: map_add_def fun_eq_iff split: option.splits)
  then show ?case
    by (simp add: kv Cons.IH props_setProp del: fun_upd_apply)
qed

lemma map_of_rev_distinct: "distinct (map fst kvs) \<Longrightarrow> map_of (rev kvs) = map_of kvs"
proof (induction kvs)
  case Nil
  then show ?case by simp
next
  case (Cons kv kvs)
  obtain k x where kv: "kv = (k, x)" by (cases kv)
  from Cons.prems have notin: "k \<notin> dom (map_of kvs)" and d: "distinct (map fst kvs)"
    by (auto simp: kv dom_map_of_conv_image_fst)
  have "map_of (rev (kv # kvs)) = [k \<mapsto> x] ++ map_of kvs"
    by (simp add: kv Cons.IH [OF d])
  also have "\<dots> = (map_of kvs)(k \<mapsto> x)"
    using notin by (auto simp: map_add_def fun_eq_iff split: option.splits)
  finally show ?case by (simp add: kv)
qed

lemma forEachInstruction_append:
  "forEachInstruction body (pre @ rest) s =
     (case forEachInstruction body pre s of Inl e \<Rightarrow> Inl e
      | Inr s1 \<Rightarrow> forEachInstruction body rest s1)"
  by (induction pre arbitrary: s) (auto split: sum.splits)

lemma transformData_object:
  assumes "isObject sourceObject" "\<not> isArray (heap s) sourceObject"
  shows "transformData (Suc depth) acc opts s sourceObject ins =
     (case forEachInstruction
             (processInstruction (transformData depth acc opts) acc opts sourceObject
                (length (heap s)))
             (toArray ins) (s\<lparr>heap := heap s @ [ObjectCell []]\<rparr>) of
        Inl e \<Rightarrow> Inl e
      | Inr s' \<Rightarrow> Inr (Ref (length (heap s)), s'))"
  using assms by (simp add: Let_def)

lemma transformData_throws_at:
  assumes "isObject sourceObject" "\<not> isArray (heap s) sourceObject"
    and "toArray ins = pre @ instruction # post"
    and "forEachInstruction
           (processInstruction (transformData depth acc opts) acc opts sourceObject
              (length (heap s))) pre (s\<lparr>heap := heap s @ [ObjectCell []]\<rparr>) = Inr s1"
    and "processInstruction (transformData depth acc opts) acc opts sourceObject
           (length (heap s)) instruction s1 = Inl e"
  shows "transformData (Suc depth) acc opts s sourceObject ins = Inl e"
  unfolding transformData_object [OF assms(1,2)] assms(3) forEachInstruction_append
  using assms(4,5) by simp

lemma mapElements_append:
  "mapElements f (pre @ rest) s =
     (case mapElements f pre s of
        Inl e \<Rightarrow> Inl e
      | Inr (ys, s1) \<Rightarrow>
          (case mapElements f rest s1 of Inl e \<Rightarrow> Inl e | Inr (zs, s2) \<Rightarrow> Inr (ys @ zs, s2)))"
  by (induction pre arbitrary: s) (auto split: sum.splits prod.splits)

subsection \<open>Extraction from several paths\<close>

text \<open>
  Claim C1. Let every sub-path of a multi-source \<^verbatim>\<open>from\<close> be extracted without a throw,
  giving \<open>extracts\<close>, one pair \<^verbatim>\<open>[exists, value]\<close> per path in the order of \<^verbatim>\<open>paths\<close>.
  Then the combined extraction exists exactly when every pair says so. If one does not,
  the result is \<^verbatim>\<open>[false, undefined]\<close>: the instruction is treated as non-existent and the
  value it produces is its \<^verbatim>\<open>default\<close> (\<^verbatim>\<open>undefined\<close> when it has none), whatever nested
  instructions and transform it carries. If all exist, the value is \<^verbatim>\<open>combine\<close> applied to
  the extracted values in the order of \<^verbatim>\<open>paths\<close> when \<^verbatim>\<open>combine\<close> is given, and a new
  array of these values otherwise.
\<close>

theorem combined_extraction_all_or_nothing:
  assumes "mapE (extractProperty acc (heap s) sourceObject) paths = Inr extracts"
  shows "length extracts = length paths \<and>
    (\<forall>k<length paths. extractProperty acc (heap s) sourceObject (paths ! k) = Inr (extracts ! k)) \<and>
    extractCombinedProperties acc (heap s) sourceObject paths combine =
       (if \<not> list_all fst extracts then Inr ((False, Undefined), heap s)
        else case combine of
               Some f \<Rightarrow>
                 (case f (map snd extracts) (heap s) of
                    Inl e \<Rightarrow> Inl e
                  | Inr (value, h') \<Rightarrow> Inr ((True, value), h'))
             | None \<Rightarrow>
                 Inr ((True, Ref (length (heap s))), heap s @ [arrayLiteral (map snd extracts)])) \<and>
    (from' instruction = FromPaths paths combine \<and> \<not> list_all fst extracts \<longrightarrow>
       extractSource acc instruction sourceObject s = Inr ((False, Undefined), s) \<and>
       produceValue rec opts instruction resultObject sourceObject (False, Undefined) s =
         Inr (default' instruction,
              if warn opts
              then s\<lparr>console := console s @
                     [''Value does not exist at: '' @ stringifyPath (from' instruction)]\<rparr>
              else s))"
proof -
  have len: "length extracts = length paths"
    using assms by (rule mapE_length)
  have nth: "\<forall>k<length paths. extractProperty acc (heap s) sourceObject (paths ! k) = Inr (extracts ! k)"
    using assms by (simp add: mapE_nth)
  have comb: "extractCombinedProperties acc (heap s) sourceObject paths combine =
       (if \<not> list_all fst extracts then Inr ((False, Undefined), heap s)
        else case combine of
               Some f \<Rightarrow>
                 (case f (map snd extracts) (heap s) of
                    Inl e \<Rightarrow> Inl e
                  | Inr (value, h') \<Rightarrow> Inr ((True, value), h'))
             | None \<Rightarrow>
                 Inr ((True, Ref (length (heap s))), heap s @ [arrayLiteral (map snd extracts)]))"
    unfolding extractCombinedProperties_def foldl_allExist foldl_allValues
    using assms by (simp split: option.splits)
  have src: "extractSource acc instruction sourceObject s = Inr ((False, Undefined), s)"
    if "from' instruction = FromPaths paths combine" "\<not> list_all fst extracts"
    using that by (simp add: extractSource_def catchFrom_def comb)
  have dflt: "produceValue rec opts instruction resultObject sourceObject (False, Undefined) s =
         Inr (default' instruction,
              if warn opts
              then s\<lparr>console := console s @
                     [''Value does not exist at: '' @ stringifyPath (from' instruction)]\<rparr>
              else s)"
    by (simp add: produceValue_def Let_def)
  from len nth comb src dflt show ?thesis by blast
qed

theorem combined_extraction_all_or_nothing_witness:
  "extractCombinedProperties specAccessor [ObjectCell [(''a'', Num 1)]] (Ref 0)
     [Path (DotPath ''a''), Path (DotPath ''b'')] (Some (\<lambda>vs h. Inr (Null, h))) =
     Inr ((False, Undefined), [ObjectCell [(''a'', Num 1)]]) \<and>
   extractCombinedProperties specAccessor [ObjectCell [(''a'', Num 1)]] (Ref 0)
     [Path (DotPath ''a''), PathNull] None =
     Inr ((True, Ref 1), [ObjectCell [(''a'', Num 1)], ArrayCell [(''0'', Num 1), (''1'', Ref 0)]]) \<and>
   extractSource specAccessor
     (Instruction (FromPaths [Path (DotPath ''a''), Path (DotPath ''b'')] None)
        (Some (Path (DotPath ''out''))) None (TransformValue Undefined) (Str ''D''))
     (Ref 0) \<lparr>heap = [ObjectCell [(''a'', Num 1)]], console = []\<rparr> =
     Inr ((False, Undefined), \<lparr>heap = [ObjectCell [(''a'', Num 1)]], console = []\<rparr>) \<and>
   produceValue (transformData 0 specAccessor \<lparr>warn = False\<rparr>) \<lparr>warn = False\<rparr>
     (Instruction (FromPaths [Path (DotPath ''a''), Path (DotPath ''b'')] None)
        (Some (Path (DotPath ''out''))) None (TransformValue Undefined) (Str ''D''))
     1 (Ref 0) (False, Undefined) \<lparr>heap = [ObjectCell [(''a'', Num 1)]], console = []\<rparr> =
     Inr (Str ''D'', \<lparr>heap = [ObjectCell [(''a'', Num 1)]], console = []\<rparr>)"
proof -
  let ?s = "\<lparr>heap = [ObjectCell [(''a'', Num 1)]], console = []\<rparr>"
  let ?i = "Instruction (FromPaths [Path (DotPath ''a''), Path (DotPath ''b'')] None)
        (Some (Path (DotPath ''out''))) None (TransformValue Undefined) (Str ''D'')"
  have h1: "mapE (extractProperty specAccessor (heap ?s) (Ref 0))
              [Path (DotPath ''a''), Path (DotPath ''b'')] = Inr [(True, Num 1), (False, Undefined)]"
    by (simp add: model_defs)
  have h2: "mapE (extractProperty specAccessor (heap ?s) (Ref 0))
              [Path (DotPath ''a''), PathNull] = Inr [(True, Num 1), (True, Ref 0)]"
    by (simp add: model_defs)
  have nums: "showNat 0 = ''0''" "showNat 1 = ''1''" "showNat (Suc 0) = ''1''"
    by (simp_all add: showNat.simps digit_def)
  show ?thesis
    using combined_extraction_all_or_nothing [OF h1, of "Some (\<lambda>vs h. Inr (Null, h))"]
      combined_extraction_all_or_nothing [OF h2, of None]
      combined_extraction_all_or_nothing [OF h1, of None ?i
        "transformData 0 specAccessor \<lparr>warn = False\<rparr>" "\<lparr>warn = False\<rparr>" 1]
    by (simp add: arrayLiteral_def nums upt_rec)
qed

subsection \<open>Default and absence\<close>

text \<open>
  Claim C2. The \<^verbatim>\<open>default\<close> of an instruction is the value produced exactly when the
  extraction reports that the value does not exist; when the extraction exists, its value
  is produced, also when it is \<^verbatim>\<open>undefined\<close>, and the \<^verbatim>\<open>default\<close> plays no part. So
  \<^verbatim>\<open>{}\<close> under \<^verbatim>\<open>{from: 'foo', to: 'bar', default: 'D'}\<close> gives \<^verbatim>\<open>{bar: 'D'}\<close>, and
  \<^verbatim>\<open>{foo: undefined}\<close> under the same instruction gives \<^verbatim>\<open>{bar: undefined}\<close>.
\<close>

theorem default_only_when_missing:
  \<open>produceValue rec opts instruction resultObject sourceObject (False, v) s =
     Inr (default' instruction,
          if warn opts
          then s\<lparr>console := console s @
                 [''Value does not exist at: '' @ stringifyPath (from' instruction)]\<rparr>
          else s) \<and>
   produceValue rec opts (Instruction fr t None (TransformValue Undefined) d) resultObject
       sourceObject (True, v) s = Inr (v, s) \<and>
   produceValue rec opts (Instruction fr t ins tr d) resultObject sourceObject (True, v) s =
     produceValue rec opts (Instruction fr t ins tr d') resultObject sourceObject (True, v) s \<and>
   transformData (Suc depth) specAccessor \<lparr>warn = False\<rparr>
       \<lparr>heap = [ObjectCell []], console = []\<rparr> (Ref 0)
       (Single (Instruction (FromPath (Path (DotPath ''foo''))) (Some (Path (DotPath ''bar'')))
                  None (TransformValue Undefined) (Str ''D''))) =
     Inr (Ref 1, \<lparr>heap = [ObjectCell [], ObjectCell [(''bar'', Str ''D'')]], console = []\<rparr>) \<and>
   transformData (Suc depth) specAccessor \<lparr>warn = False\<rparr>
       \<lparr>heap = [ObjectCell [(''foo'', Undefined)]], console = []\<rparr> (Ref 0)
       (Single (Instruction (FromPath (Path (DotPath ''foo''))) (Some (Path (DotPath ''bar'')))
                  None (TransformValue Undefined) (Str ''D''))) =
     Inr (Ref 1, \<lparr>heap = [ObjectCell [(''foo'', Undefined)], ObjectCell [(''bar'', Undefined)]],
                  console = []\<rparr>)\<close>
proof -
  have a: "produceValue rec opts instruction resultObject sourceObject (False, v) s =
     Inr (default' instruction,
          if warn opts
          then s\<lparr>console := console s @
                 [''Value does not exist at: '' @ stringifyPath (from' instruction)]\<rparr>
          else s)"
    by (simp add: produceValue_def Let_def)
  have b: "produceValue rec opts (Instruction fr t None (TransformValue Undefined) d) resultObject
       sourceObject (True, v) s = Inr (v, s)"
    by (simp add: produceValue_def truthy_def)
  have c: "produceValue rec opts (Instruction fr t ins tr d) resultObject sourceObject (True, v) s =
     produceValue rec opts (Instruction fr t ins tr d') resultObject sourceObject (True, v) s"
    by (simp add: produceValue_def split: sum.splits prod.splits)
  have d: "transformData (Suc depth) specAccessor \<lparr>warn = False\<rparr>
       \<lparr>heap = [ObjectCell []], console = []\<rparr> (Ref 0)
       (Single (Instruction (FromPath (Path (DotPath ''foo''))) (Some (Path (DotPath ''bar'')))
                  None (TransformValue Undefined) (Str ''D''))) =
     Inr (Ref 1, \<lparr>heap = [ObjectCell [], ObjectCell [(''bar'', Str ''D'')]], console = []\<rparr>)"
    by (simp add: model_defs)
  have e: "transformData (Suc depth) specAccessor \<lparr>warn = False\<rparr>
       \<lparr>heap = [ObjectCell [(''foo'', Undefined)]], console = []\<rparr> (Ref 0)
       (Single (Instruction (FromPath (Path (DotPath ''foo''))) (Some (Path (DotPath ''bar'')))
                  None (TransformValue Undefined) (Str ''D''))) =
     Inr (Ref 1, \<lparr>heap = [ObjectCell [(''foo'', Undefined)], ObjectCell [(''bar'', Undefined)]],
                  console = []\<rparr>)"
    by (simp add: model_defs)
  from a b c d e show ?thesis by blast
qed

subsection \<open>Nested instructions, then transform\<close>

text \<open>
  Claim C3. When the extraction exists, the nested \<^verbatim>\<open>instructions\<close> (if any) are applied
  first, by a recursive call on the extracted value, and \<^verbatim>\<open>transform\<close> (if any) is then
  called on what they returned, in the state they left. When the extraction does not
  exist, neither runs: the value produced is the same as for the instruction without
  nested instructions and without transform, whether or not it has a \<^verbatim>\<open>default\<close>. The two
  examples run a transform that recognises the nested result, and an instruction on a
  missing key whose nested instruction is invalid and whose transform throws.
\<close>

theorem nested_before_transform:
  "produceValue (transformData depth acc opts) opts
       (Instruction fr t (Some nested) (TransformFunction f) d) resultObject sourceObject (True, v) s =
     (case transformData depth acc opts s v nested of
        Inl e \<Rightarrow> Inl e
      | Inr (v1, s1) \<Rightarrow>
          (case f v1 (Ref resultObject) sourceObject (heap s1) of
             Inl e \<Rightarrow> Inl e
           | Inr (v2, h) \<Rightarrow> Inr (v2, s1\<lparr>heap := h\<rparr>))) \<and>
   produceValue rec opts (Instruction fr t None (TransformFunction f) d) resultObject sourceObject (True, v) s =
     (case f v (Ref resultObject) sourceObject (heap s) of
        Inl e \<Rightarrow> Inl e
      | Inr (v2, h) \<Rightarrow> Inr (v2, s\<lparr>heap := h\<rparr>)) \<and>
   produceValue (transformData depth acc opts) opts
       (Instruction fr t (Some nested) (TransformValue Undefined) d) resultObject sourceObject (True, v) s =
     transformData depth acc opts s v nested \<and>
   produceValue rec opts (Instruction fr t ins tr d) resultObject sourceObject (False, v) s =
     produceValue rec' opts (Instruction fr t None (TransformValue Undefined) d) resultObject
       sourceObject (False, v) s \<and>
   transformData (Suc (Suc depth)) specAccessor \<lparr>warn = False\<rparr>
       \<lparr>heap = [ObjectCell [(''a'', Ref 1)], ObjectCell [(''x'', Num 1)]], console = []\<rparr> (Ref 0)
       (Single (Instruction (FromPath (Path (DotPath ''a''))) (Some (Path (DotPath ''out'')))
          (Some (Single (Instruction (FromPath (Path (DotPath ''x''))) (Some (Path (DotPath ''y'')))
                           None (TransformValue Undefined) Undefined)))
          (TransformFunction sawNested) Undefined)) =
     Inr (Ref 2, \<lparr>heap = [ObjectCell [(''a'', Ref 1)], ObjectCell [(''x'', Num 1)],
                          ObjectCell [(''out'', Str ''nested result'')], ObjectCell [(''y'', Num 1)]],
                  console = []\<rparr>) \<and>
   transformData (Suc depth) specAccessor \<lparr>warn = False\<rparr>
       \<lparr>heap = [ObjectCell []], console = []\<rparr> (Ref 0)
       (Single (Instruction (FromPath (Path (DotPath ''a''))) (Some (Path (DotPath ''out'')))
          (Some (Single (Instruction FromUndefined None None (TransformValue Undefined) Undefined)))
          (TransformFunction (\<lambda>v r src h. Inl (Thrown (Str ''transform was called''))))
          (Str ''D''))) =
     Inr (Ref 1, \<lparr>heap = [ObjectCell [], ObjectCell [(''out'', Str ''D'')]], console = []\<rparr>)"
proof -
  have a: "produceValue (transformData depth acc opts) opts
       (Instruction fr t (Some nested) (TransformFunction f) d) resultObject sourceObject (True, v) s =
     (case transformData depth acc opts s v nested of
        Inl e \<Rightarrow> Inl e
      | Inr (v1, s1) \<Rightarrow>
          (case f v1 (Ref resultObject) sourceObject (heap s1) of
             Inl e \<Rightarrow> Inl e
           | Inr (v2, h) \<Rightarrow> Inr (v2, s1\<lparr>heap := h\<rparr>)))"
    by (simp add: produceValue_def split: sum.splits prod.splits)
  have b: "produceValue rec opts (Instruction fr t None (TransformFunction f) d) resultObject sourceObject (True, v) s =
     (case f v (Ref resultObject) sourceObject (heap s) of
        Inl e \<Rightarrow> Inl e
      | Inr (v2, h) \<Rightarrow> Inr (v2, s\<lparr>heap := h\<rparr>))"
    by (simp add: produceValue_def split: sum.splits prod.splits)
  have c: "produceValue (transformData depth acc opts) opts
       (Instruction fr t (Some nested) (TransformValue Undefined) d) resultObject sourceObject (True, v) s =
     transformData depth acc opts s v nested"
    by (simp add: produceValue_def truthy_def split: sum.splits prod.splits)
  have d: "produceValue rec opts (Instruction fr t ins tr d) resultObject sourceObject (False, v) s =
     produceValue rec' opts (Instruction fr t None (TransformValue Undefined) d) resultObject
       sourceObject (False, v) s"
    by (simp add: produceValue_def)
  have e: "transformData (Suc (Suc depth)) specAccessor \<lparr>warn = False\<rparr>
       \<lparr>heap = [ObjectCell [(''a'', Ref 1)], ObjectCell [(''x'', Num 1)]], console = []\<rparr> (Ref 0)
       (Single (Instruction (FromPath (Path (DotPath ''a''))) (Some (Path (DotPath ''out'')))
          (Some (Single (Instruction (FromPath (Path (DotPath ''x''))) (Some (Path (DotPath ''y'')))
                           None (TransformValue Undefined) Undefined)))
          (TransformFunction sawNested) Undefined)) =
     Inr (Ref 2, \<lparr>heap = [ObjectCell [(''a'', Ref 1)], ObjectCell [(''x'', Num 1)],
                          ObjectCell [(''out'', Str ''nested result'')], ObjectCell [(''y'', Num 1)]],
                  console = []\<rparr>)"
    by (simp add: model_defs sawNested_def)
  have f: "transformData (Suc depth) specAccessor \<lparr>warn = False\<rparr>
       \<lparr>heap = [ObjectCell []], console = []\<rparr> (Ref 0)
       (Single (Instruction (FromPath (Path (DotPath ''a''))) (Some (Path (DotPath ''out'')))
          (Some (Single (Instruction FromUndefined None None (TransformValue Undefined) Undefined)))
          (TransformFunction (\<lambda>v r src h. Inl (Thrown (Str ''transform was called''))))
          (Str ''D''))) =
     Inr (Ref 1, \<lparr>heap = [ObjectCell [], ObjectCell [(''out'', Str ''D'')]], console = []\<rparr>)"
    by (simp add: model_defs)
  from a b c d e f show ?thesis by blast
qed

subsection \<open>Arrays as source\<close>



subsection \<open>The source object after the call\<close>

text \<open>
  Claim C6 says the source is never changed. The value written into the result is the
  object the source holds, not a copy, so a later instruction whose \<^verbatim>\<open>to\<close> path leads
  through it writes into the source. With the accessor of the spec's section 4.1, the
  source \<^verbatim>\<open>{name: 'Jane', address: {street: 'Harrison Avenue'}}\<close> under the instructions
  \<^verbatim>\<open>{from: 'address', to: 'addr'}\<close> and \<^verbatim>\<open>{from: 'name', to: 'addr.owner'}\<close> ends with
  \<^verbatim>\<open>owner: 'Jane'\<close> in its own \<^verbatim>\<open>address\<close> object (the cell at address 1).
\<close>

theorem source_changed_through_result:
  "transformData (Suc 0) specAccessor \<lparr>warn = False\<rparr>
     \<lparr>heap = [ObjectCell [(''name'', Str ''Jane''), (''address'', Ref 1)],
              ObjectCell [(''street'', Str ''Harrison Avenue'')]], console = []\<rparr> (Ref 0)
     (Several
        [Instruction (FromPath (Path (DotPath ''address''))) (Some (Path (DotPath ''addr''))) None
           (TransformValue Undefined) Undefined,
         Instruction (FromPath (Path (DotPath ''name''))) (Some (Path (DotPath ''addr.owner'')))
           None (TransformValue Undefined) Undefined]) =
   Inr (Ref 2,
        \<lparr>heap = [ObjectCell [(''name'', Str ''Jane''), (''address'', Ref 1)],
                 ObjectCell [(''street'', Str ''Harrison Avenue''), (''owner'', Str ''Jane'')],
                 ObjectCell [(''addr'', Ref 1)]],
           console = []\<rparr>)"
  by (simp add: model_defs)

subsection \<open>Merging into the result\<close>

text \<open>
  Claim C5, as amended. Let the loop of a call on an object reach a valid instruction with
  \<^verbatim>\<open>to === null\<close>, and let \<open>v\<close> be the value the instruction produces. The value must be
  an object of the host language, that is a reference to a plain object or to an array,
  and not \<^verbatim>\<open>null\<close>, \<^verbatim>\<open>undefined\<close> or another primitive: otherwise the call throws the
  \<^verbatim>\<open>DataTransformError\<close> "Cannot assign properties from a non-object" carrying the
  instruction. When it is one, the instruction ends with the own properties of the value
  (for an array, its elements under their indices) merged into the result object, which
  the call returns when the instruction is the last: the properties of the same name are
  overwritten, the others and every other cell of the heap are left as they were.
\<close>

theorem merge_requires_object:
  \<open>(isObject sourceObject \<and> \<not> isArray (heap s) sourceObject \<and>
    toArray ins = pre @ instruction # post \<and>
    forEachInstruction
      (processInstruction (transformData depth acc opts) acc opts sourceObject (length (heap s)))
      pre (s\<lparr>heap := heap s @ [ObjectCell []]\<rparr>) = Inr s1 \<and>
    \<not> (transformDefined (transform instruction) \<and> \<not> isFunction (transform instruction)) \<and>
    to' instruction = Some PathNull \<and>
    extractSource acc instruction sourceObject s1 = Inr (ex, s2) \<and>
    produceValue (transformData depth acc opts) opts instruction (length (heap s)) sourceObject
      ex s2 = Inr (v, s3) \<longrightarrow>
      ((\<forall>a. v \<noteq> Ref a) \<longrightarrow>
         transformData (Suc depth) acc opts s sourceObject ins =
           Inl (DataTransformError ''Cannot assign properties from a non-object''
                  (Some instruction))) \<and>
      ((\<exists>a. v = Ref a) \<longrightarrow>
         processInstruction (transformData depth acc opts) acc opts sourceObject
             (length (heap s)) instruction s1 =
           Inr (s3\<lparr>heap := objectAssign (heap s3) (length (heap s)) v\<rparr>) \<and>
         (post = [] \<longrightarrow>
            transformData (Suc depth) acc opts s sourceObject ins =
              Inr (Ref (length (heap s)),
                   s3\<lparr>heap := objectAssign (heap s3) (length (heap s)) v\<rparr>)))) \<and>
   (lookupCell h v = Some c \<and> resultObject < length h \<and> distinct (map fst (props c)) \<longrightarrow>
      map_of (props (objectAssign h resultObject v ! resultObject)) =
        map_of (props (h ! resultObject)) ++ map_of (props c) \<and>
      length (objectAssign h resultObject v) = length h \<and>
      (\<forall>a. a \<noteq> resultObject \<longrightarrow> objectAssign h resultObject v ! a = h ! a))\<close>
proof -
  let ?r = "length (heap s)"
  let ?step = "processInstruction (transformData depth acc opts) acc opts sourceObject ?r
                 instruction s1"
  {
    assume obj: "isObject sourceObject" "\<not> isArray (heap s) sourceObject"
      "toArray ins = pre @ instruction # post"
      "forEachInstruction
        (processInstruction (transformData depth acc opts) acc opts sourceObject ?r)
        pre (s\<lparr>heap := heap s @ [ObjectCell []]\<rparr>) = Inr s1"
    and valid: "\<not> (transformDefined (transform instruction) \<and> \<not> isFunction (transform instruction))"
      "to' instruction = Some PathNull"
    and run: "extractSource acc instruction sourceObject s1 = Inr (ex, s2)"
      "produceValue (transformData depth acc opts) opts instruction ?r sourceObject ex s2 =
         Inr (v, s3)"
    have fd: "fromDefined (from' instruction)"
      using run(1) by (cases "from' instruction") (auto simp: fromDefined_def extractSource_def)
    have step: "?step = writeResult acc instruction ?r PathNull v s3"
      using valid fd run by (auto simp: processInstruction_def)
    have fails: \<open>transformData (Suc depth) acc opts s sourceObject ins =
           Inl (DataTransformError ''Cannot assign properties from a non-object''
                  (Some instruction))\<close>
      if "\<forall>a. v \<noteq> Ref a"
    proof (rule transformData_throws_at [OF obj])
      from that have "\<not> isObject v" by (cases v) (simp_all add: isObject_def)
      then show \<open>?step = Inl (DataTransformError ''Cannot assign properties from a non-object''
                  (Some instruction))\<close>
        by (simp add: step writeResult_def)
    qed
    have merges: "?step = Inr (s3\<lparr>heap := objectAssign (heap s3) ?r v\<rparr>)"
      if "\<exists>a. v = Ref a"
      using that by (auto simp: step writeResult_def isObject_def)
    have returns: "transformData (Suc depth) acc opts s sourceObject ins =
              Inr (Ref ?r, s3\<lparr>heap := objectAssign (heap s3) ?r v\<rparr>)"
      if "\<exists>a. v = Ref a" "post = []"
      unfolding transformData_object [OF obj(1,2)] obj(3) forEachInstruction_append
      using obj(4) merges [OF that(1)] that(2) by simp
    note fails merges returns
  }
  note call = this
  have merge: "map_of (props (objectAssign h resultObject v ! resultObject)) =
        map_of (props (h ! resultObject)) ++ map_of (props c) \<and>
      length (objectAssign h resultObject v) = length h \<and>
      (\<forall>a. a \<noteq> resultObject \<longrightarrow> objectAssign h resultObject v ! a = h ! a)"
    if "lookupCell h v = Some c" "resultObject < length h" "distinct (map fst (props c))"
    using that by (simp add: objectAssign_def fold_setProp map_of_rev_distinct)
  from call merge show ?thesis by blast
qed

theorem merge_requires_object_witness:
  \<open>transformData (Suc 0) specAccessor \<lparr>warn = False\<rparr> \<lparr>heap = [ObjectCell []], console = []\<rparr>
     (Ref 0)
     (Single (Instruction (FromPath (Path (DotPath ''prop''))) (Some PathNull) None
                (TransformValue Undefined) Undefined)) =
   Inl (DataTransformError ''Cannot assign properties from a non-object''
          (Some (Instruction (FromPath (Path (DotPath ''prop''))) (Some PathNull) None
                   (TransformValue Undefined) Undefined))) \<and>
   transformData (Suc 0) specAccessor \<lparr>warn = False\<rparr>
     \<lparr>heap = [ObjectCell [(''a'', Ref 1), (''b'', Ref 2)],
              ObjectCell [(''k'', Num 2), (''m'', Num 3)],
              ObjectCell [(''j'', Num 0), (''k'', Num 1)]], console = []\<rparr>
     (Ref 0)
     (Several
        [Instruction (FromPath (Path (DotPath ''b''))) (Some PathNull) None
           (TransformValue Undefined) Undefined,
         Instruction (FromPath (Path (DotPath ''a''))) (Some PathNull) None
           (TransformValue Undefined) Undefined]) =
   Inr (Ref 3,
        \<lparr>heap = [ObjectCell [(''a'', Ref 1), (''b'', Ref 2)],
                 ObjectCell [(''k'', Num 2), (''m'', Num 3)],
                 ObjectCell [(''j'', Num 0), (''k'', Num 1)],
                 ObjectCell [(''j'', Num 0), (''k'', Num 2), (''m'', Num 3)]],
           console = []\<rparr>) \<and>
   map_of (props (objectAssign
       [ObjectCell [(''k'', Num 2), (''m'', Num 3)], ObjectCell [(''j'', Num 0), (''k'', Num 1)]]
       1 (Ref 0) ! 1)) =
     [''j'' \<mapsto> Num 0, ''k'' \<mapsto> Num 1] ++ [''k'' \<mapsto> Num 2, ''m'' \<mapsto> Num 3]\<close>
proof -
  let ?opts = "\<lparr>warn = False\<rparr>"
  let ?e = "\<lparr>heap = [ObjectCell []], console = []\<rparr>"
  let ?e1 = "\<lparr>heap = [ObjectCell [], ObjectCell []], console = []\<rparr>"
  let ?p = "Instruction (FromPath (Path (DotPath ''prop''))) (Some PathNull) None
                (TransformValue Undefined) Undefined"
  let ?s = "\<lparr>heap = [ObjectCell [(''a'', Ref 1), (''b'', Ref 2)],
              ObjectCell [(''k'', Num 2), (''m'', Num 3)],
              ObjectCell [(''j'', Num 0), (''k'', Num 1)]], console = []\<rparr>"
  let ?s1 = "\<lparr>heap = [ObjectCell [(''a'', Ref 1), (''b'', Ref 2)],
              ObjectCell [(''k'', Num 2), (''m'', Num 3)],
              ObjectCell [(''j'', Num 0), (''k'', Num 1)],
              ObjectCell [(''j'', Num 0), (''k'', Num 1)]], console = []\<rparr>"
  let ?ib = "Instruction (FromPath (Path (DotPath ''b''))) (Some PathNull) None
           (TransformValue Undefined) Undefined"
  let ?ia = "Instruction (FromPath (Path (DotPath ''a''))) (Some PathNull) None
           (TransformValue Undefined) Undefined"
  have f: "isObject (Ref 0) \<and> \<not> isArray (heap ?e) (Ref 0) \<and>
    toArray (Single ?p) = [] @ ?p # [] \<and>
    forEachInstruction
      (processInstruction (transformData 0 specAccessor ?opts) specAccessor ?opts (Ref 0)
         (length (heap ?e)))
      [] (?e\<lparr>heap := heap ?e @ [ObjectCell []]\<rparr>) = Inr ?e1 \<and>
    \<not> (transformDefined (transform ?p) \<and> \<not> isFunction (transform ?p)) \<and>
    to' ?p = Some PathNull \<and>
    extractSource specAccessor ?p (Ref 0) ?e1 = Inr ((False, Undefined), ?e1) \<and>
    produceValue (transformData 0 specAccessor ?opts) ?opts ?p (length (heap ?e)) (Ref 0)
      (False, Undefined) ?e1 = Inr (Undefined, ?e1) \<and> (\<forall>a. Undefined \<noteq> Ref a)"
    by (simp add: model_defs)
  have g: "isObject (Ref 0) \<and> \<not> isArray (heap ?s) (Ref 0) \<and>
    toArray (Several [?ib, ?ia]) = [?ib] @ ?ia # [] \<and>
    forEachInstruction
      (processInstruction (transformData 0 specAccessor ?opts) specAccessor ?opts (Ref 0)
         (length (heap ?s)))
      [?ib] (?s\<lparr>heap := heap ?s @ [ObjectCell []]\<rparr>) = Inr ?s1 \<and>
    \<not> (transformDefined (transform ?ia) \<and> \<not> isFunction (transform ?ia)) \<and>
    to' ?ia = Some PathNull \<and>
    extractSource specAccessor ?ia (Ref 0) ?s1 = Inr ((True, Ref 1), ?s1) \<and>
    produceValue (transformData 0 specAccessor ?opts) ?opts ?ia (length (heap ?s)) (Ref 0)
      (True, Ref 1) ?s1 = Inr (Ref 1, ?s1) \<and> (\<exists>a. Ref 1 = Ref a)"
    by (simp add: model_defs)
  let ?h = "[ObjectCell [(''k'', Num 2), (''m'', Num 3)], ObjectCell [(''j'', Num 0), (''k'', Num 1)]]"
  have h: "lookupCell ?h (Ref 0) = Some (ObjectCell [(''k'', Num 2), (''m'', Num 3)]) \<and>
      (1::nat) < length ?h \<and> distinct (map fst (props (ObjectCell [(''k'', Num 2), (''m'', Num 3)])))"
    by (simp add: lookupCell_def)
  from merge_requires_object [where sourceObject = "Ref 0" and s = ?e and ins = "Single ?p"
      and pre = "[]" and instruction = ?p and post = "[]" and depth = 0 and acc = specAccessor
      and opts = ?opts and ?s1.0 = ?e1 and ex = "(False, Undefined)" and ?s2.0 = ?e1
      and v = Undefined and ?s3.0 = ?e1] f
  have 1: \<open>transformData (Suc 0) specAccessor ?opts ?e (Ref 0) (Single ?p) =
      Inl (DataTransformError ''Cannot assign properties from a non-object'' (Some ?p))\<close>
    by blast
  from merge_requires_object [where sourceObject = "Ref 0" and s = ?s
      and ins = "Several [?ib, ?ia]" and pre = "[?ib]" and instruction = ?ia and post = "[]"
      and depth = 0 and acc = specAccessor and opts = ?opts and ?s1.0 = ?s1
      and ex = "(True, Ref 1)" and ?s2.0 = ?s1 and v = "Ref 1" and ?s3.0 = ?s1] g
  have 2: "transformData (Suc 0) specAccessor ?opts ?s (Ref 0) (Several [?ib, ?ia]) =
      Inr (Ref (length (heap ?s)), ?s1\<lparr>heap := objectAssign (heap ?s1) (length (heap ?s)) (Ref 1)\<rparr>)"
    by blast
  have merged: "objectAssign (heap ?s1) (length (heap ?s)) (Ref 1) =
      [ObjectCell [(''a'', Ref 1), (''b'', Ref 2)],
       ObjectCell [(''k'', Num 2), (''m'', Num 3)],
       ObjectCell [(''j'', Num 0), (''k'', Num 1)],
       ObjectCell [(''j'', Num 0), (''k'', Num 2), (''m'', Num 3)]]"
    by (simp add: objectAssign_def lookupCell_def setProp_def)
  have two: "transformData (Suc 0) specAccessor ?opts ?s (Ref 0) (Several [?ib, ?ia]) =
   Inr (Ref 3,
        \<lparr>heap = [ObjectCell [(''a'', Ref 1), (''b'', Ref 2)],
                 ObjectCell [(''k'', Num 2), (''m'', Num 3)],
                 ObjectCell [(''j'', Num 0), (''k'', Num 1)],
                 ObjectCell [(''j'', Num 0), (''k'', Num 2), (''m'', Num 3)]],
           console = []\<rparr>)"
    unfolding 2 merged by simp
  from merge_requires_object [where resultObject = 1 and v = "Ref 0" and h = ?h
      and c = "ObjectCell [(''k'', Num 2), (''m'', Num 3)]"] h
  have "map_of (props (objectAssign ?h 1 (Ref 0) ! 1)) =
        map_of (props (?h ! 1)) ++ map_of (props (ObjectCell [(''k'', Num 2), (''m'', Num 3)]))"
    by blast
  then have three: "map_of (props (objectAssign ?h 1 (Ref 0) ! 1)) =
     [''j'' \<mapsto> Num 0, ''k'' \<mapsto> Num 1] ++ [''k'' \<mapsto> Num 2, ''m'' \<mapsto> Num 3]"
    by (simp add: fun_upd_twist)
  from 1 two three show ?thesis by blast
qed

text \<open>
  The claim as stated excludes sequences. The test is \<^verbatim>\<open>isObject\<close>, which an array passes:
  \<^verbatim>\<open>{list: ['x']}\<close> under \<^verbatim>\<open>{from: 'list', to: null}\<close> does not throw and gives \<^verbatim>\<open>{'0': 'x'}\<close>.
\<close>

theorem merge_of_sequence_counterexample:
  "transformData (Suc 0) specAccessor \<lparr>warn = False\<rparr>
     \<lparr>heap = [ObjectCell [(''list'', Ref 1)], ArrayCell [(''0'', Str ''x'')]], console = []\<rparr>
     (Ref 0)
     (Single (Instruction (FromPath (Path (DotPath ''list''))) (Some PathNull) None
                (TransformValue Undefined) Undefined)) =
   Inr (Ref 2,
        \<lparr>heap = [ObjectCell [(''list'', Ref 1)], ArrayCell [(''0'', Str ''x'')],
                 ObjectCell [(''0'', Str ''x'')]],
           console = []\<rparr>)"
  by (simp add: model_defs)

subsection \<open>Validation of an instruction\<close>

text \<open>
  Claim C9. Once the loop reaches an instruction (the source is an object and the
  instructions before it did not throw), the instruction is validated before anything of
  it runs: a \<^verbatim>\<open>transform\<close> that is present and not a function makes the call throw
  "Transform is not a function", an absent \<^verbatim>\<open>from\<close> makes it throw 'Must supply "from"
  key path' and an absent \<^verbatim>\<open>to\<close> makes it throw 'Must supply "to" key path', each a
  \<^verbatim>\<open>DataTransformError\<close> carrying the instruction. The checks are made in this order, so
  for an instruction with several of these defects the first decides. \<^verbatim>\<open>from\<close> and \<^verbatim>\<open>to\<close>
  equal to \<^verbatim>\<open>null\<close> count as present: such an instruction passes the checks and merges
  the source into the result.
\<close>

theorem instruction_validation:
  assumes "isObject sourceObject" "\<not> isArray (heap s) sourceObject"
    and "toArray ins = pre @ instruction # post"
    and "forEachInstruction
           (processInstruction (transformData depth acc opts) acc opts sourceObject
              (length (heap s))) pre (s\<lparr>heap := heap s @ [ObjectCell []]\<rparr>) = Inr s1"
  shows
   \<open>(transformDefined (transform instruction) \<and> \<not> isFunction (transform instruction) \<longrightarrow>
       transformData (Suc depth) acc opts s sourceObject ins =
         Inl (DataTransformError ''Transform is not a function'' (Some instruction))) \<and>
    (\<not> (transformDefined (transform instruction) \<and> \<not> isFunction (transform instruction)) \<and>
     from' instruction = FromUndefined \<longrightarrow>
       transformData (Suc depth) acc opts s sourceObject ins =
         Inl (DataTransformError ''Must supply "from" key path'' (Some instruction))) \<and>
    (\<not> (transformDefined (transform instruction) \<and> \<not> isFunction (transform instruction)) \<and>
     from' instruction \<noteq> FromUndefined \<and> to' instruction = None \<longrightarrow>
       transformData (Suc depth) acc opts s sourceObject ins =
         Inl (DataTransformError ''Must supply "to" key path'' (Some instruction))) \<and>
    (from' instruction = FromPath PathNull \<and> to' instruction = Some PathNull \<and>
     transform instruction = TransformValue Undefined \<and> instructions instruction = None \<longrightarrow>
       processInstruction (transformData depth acc opts) acc opts sourceObject (length (heap s))
           instruction s1 =
         Inr (s1\<lparr>heap := objectAssign (heap s1) (length (heap s)) sourceObject\<rparr>))\<close>
proof -
  let ?step = "processInstruction (transformData depth acc opts) acc opts sourceObject
                 (length (heap s)) instruction s1"
  have t: \<open>transformData (Suc depth) acc opts s sourceObject ins =
         Inl (DataTransformError ''Transform is not a function'' (Some instruction))\<close>
    if "transformDefined (transform instruction) \<and> \<not> isFunction (transform instruction)"
  proof -
    have \<open>?step = Inl (DataTransformError ''Transform is not a function'' (Some instruction))\<close>
      using that by (simp add: processInstruction_def)
    then show ?thesis by (rule transformData_throws_at [OF assms])
  qed
  have f: \<open>transformData (Suc depth) acc opts s sourceObject ins =
         Inl (DataTransformError ''Must supply "from" key path'' (Some instruction))\<close>
    if "\<not> (transformDefined (transform instruction) \<and> \<not> isFunction (transform instruction)) \<and>
        from' instruction = FromUndefined"
  proof -
    have \<open>?step = Inl (DataTransformError ''Must supply "from" key path'' (Some instruction))\<close>
      using that by (auto simp add: processInstruction_def fromDefined_def)
    then show ?thesis by (rule transformData_throws_at [OF assms])
  qed
  have o: \<open>transformData (Suc depth) acc opts s sourceObject ins =
         Inl (DataTransformError ''Must supply "to" key path'' (Some instruction))\<close>
    if "\<not> (transformDefined (transform instruction) \<and> \<not> isFunction (transform instruction)) \<and>
        from' instruction \<noteq> FromUndefined \<and> to' instruction = None"
  proof -
    have \<open>?step = Inl (DataTransformError ''Must supply "to" key path'' (Some instruction))\<close>
      using that
      by (cases "from' instruction") (auto simp add: processInstruction_def fromDefined_def)
    then show ?thesis by (rule transformData_throws_at [OF assms])
  qed
  have n: "?step = Inr (s1\<lparr>heap := objectAssign (heap s1) (length (heap s)) sourceObject\<rparr>)"
    if "from' instruction = FromPath PathNull \<and> to' instruction = Some PathNull \<and>
     transform instruction = TransformValue Undefined \<and> instructions instruction = None"
    using that assms(1)
    by (simp add: processInstruction_def transformDefined_def fromDefined_def extractSource_def
        extractProperty_def catchFrom_def produceValue_def truthy_def writeResult_def)
  from t f o n show ?thesis by blast
qed

theorem instruction_validation_witness:
  \<open>transformData (Suc 0) specAccessor \<lparr>warn = False\<rparr>
     \<lparr>heap = [ObjectCell [(''a'', Num 1)]], console = []\<rparr> (Ref 0)
     (Single (Instruction (FromPath (Path (DotPath ''prop''))) (Some (Path (DotPath ''newProp'')))
                None (TransformValue (Str ''not a function'')) Undefined)) =
   Inl (DataTransformError ''Transform is not a function''
          (Some (Instruction (FromPath (Path (DotPath ''prop''))) (Some (Path (DotPath ''newProp'')))
                   None (TransformValue (Str ''not a function'')) Undefined))) \<and>
   transformData (Suc 0) specAccessor \<lparr>warn = False\<rparr>
     \<lparr>heap = [ObjectCell [(''a'', Num 1)]], console = []\<rparr> (Ref 0)
     (Single (Instruction FromUndefined (Some (Path (DotPath ''prop''))) None
                (TransformValue Undefined) Undefined)) =
   Inl (DataTransformError ''Must supply "from" key path''
          (Some (Instruction FromUndefined (Some (Path (DotPath ''prop''))) None
                   (TransformValue Undefined) Undefined))) \<and>
   transformData (Suc 0) specAccessor \<lparr>warn = False\<rparr>
     \<lparr>heap = [ObjectCell [(''a'', Num 1)]], console = []\<rparr> (Ref 0)
     (Single (Instruction (FromPath (Path (DotPath ''prop''))) None None
                (TransformValue Undefined) Undefined)) =
   Inl (DataTransformError ''Must supply "to" key path''
          (Some (Instruction (FromPath (Path (DotPath ''prop''))) None None
                   (TransformValue Undefined) Undefined))) \<and>
   processInstruction (transformData 0 specAccessor \<lparr>warn = False\<rparr>) specAccessor \<lparr>warn = False\<rparr>
     (Ref 0) 1 (Instruction (FromPath PathNull) (Some PathNull) None (TransformValue Undefined) Undefined)
     \<lparr>heap = [ObjectCell [(''a'', Num 1)], ObjectCell []], console = []\<rparr> =
   Inr \<lparr>heap = [ObjectCell [(''a'', Num 1)], ObjectCell [(''a'', Num 1)]], console = []\<rparr>\<close>
proof -
  let ?s = "\<lparr>heap = [ObjectCell [(''a'', Num 1)]], console = []\<rparr>"
  let ?s1 = "\<lparr>heap = [ObjectCell [(''a'', Num 1)], ObjectCell []], console = []\<rparr>"
  let ?t = "Instruction (FromPath (Path (DotPath ''prop''))) (Some (Path (DotPath ''newProp'')))
                None (TransformValue (Str ''not a function'')) Undefined"
  let ?f = "Instruction FromUndefined (Some (Path (DotPath ''prop''))) None
                (TransformValue Undefined) Undefined"
  let ?o = "Instruction (FromPath (Path (DotPath ''prop''))) None None (TransformValue Undefined)
              Undefined"
  let ?n = "Instruction (FromPath PathNull) (Some PathNull) None (TransformValue Undefined) Undefined"
  have 1: "isObject (Ref 0)" by (simp add: isObject_def)
  have 2: "\<not> isArray (heap ?s) (Ref 0)" by (simp add: isArray_def lookupCell_def)
  have 3: "toArray (Single i) = [] @ i # []" for i :: instruction by (simp add: toArray_def)
  have 4: "forEachInstruction
           (processInstruction (transformData 0 specAccessor \<lparr>warn = False\<rparr>) specAccessor
              \<lparr>warn = False\<rparr> (Ref 0) (length (heap ?s))) [] (?s\<lparr>heap := heap ?s @ [ObjectCell []]\<rparr>) =
           Inr ?s1"
    by simp
  have t: "transformDefined (transform ?t) \<and> \<not> isFunction (transform ?t)"
    by (simp add: transformDefined_def isFunction_def)
  have f: "\<not> (transformDefined (transform ?f) \<and> \<not> isFunction (transform ?f)) \<and>
     from' ?f = FromUndefined"
    by (simp add: transformDefined_def)
  have o: "\<not> (transformDefined (transform ?o) \<and> \<not> isFunction (transform ?o)) \<and>
     from' ?o \<noteq> FromUndefined \<and> to' ?o = None"
    by (simp add: transformDefined_def)
  have n: "from' ?n = FromPath PathNull \<and> to' ?n = Some PathNull \<and>
     transform ?n = TransformValue Undefined \<and> instructions ?n = None"
    by simp
  have merged: "objectAssign (heap ?s1) (length (heap ?s)) (Ref 0) =
      [ObjectCell [(''a'', Num 1)], ObjectCell [(''a'', Num 1)]]"
    by (simp add: objectAssign_def lookupCell_def setProp_def)
  from instruction_validation [OF 1 2 3 4, of ?t] t
  have a: \<open>transformData (Suc 0) specAccessor \<lparr>warn = False\<rparr> ?s (Ref 0) (Single ?t) =
      Inl (DataTransformError ''Transform is not a function'' (Some ?t))\<close>
    by blast
  from instruction_validation [OF 1 2 3 4, of ?f] f
  have b: \<open>transformData (Suc 0) specAccessor \<lparr>warn = False\<rparr> ?s (Ref 0) (Single ?f) =
      Inl (DataTransformError ''Must supply "from" key path'' (Some ?f))\<close>
    by blast
  from instruction_validation [OF 1 2 3 4, of ?o] o
  have c: \<open>transformData (Suc 0) specAccessor \<lparr>warn = False\<rparr> ?s (Ref 0) (Single ?o) =
      Inl (DataTransformError ''Must supply "to" key path'' (Some ?o))\<close>
    by blast
  from instruction_validation [OF 1 2 3 4, of ?n] n
  have d: "processInstruction (transformData 0 specAccessor \<lparr>warn = False\<rparr>) specAccessor
      \<lparr>warn = False\<rparr> (Ref 0) (length (heap ?s)) ?n ?s1 =
      Inr (?s1\<lparr>heap := objectAssign (heap ?s1) (length (heap ?s)) (Ref 0)\<rparr>)"
    by blast
  have d2: "processInstruction (transformData 0 specAccessor \<lparr>warn = False\<rparr>) specAccessor
      \<lparr>warn = False\<rparr> (Ref 0) 1 ?n ?s1 =
      Inr \<lparr>heap = [ObjectCell [(''a'', Num 1)], ObjectCell [(''a'', Num 1)]], console = []\<rparr>"
    using d merged by simp
  from a b c d2 show ?thesis by blast
qed

subsection \<open>The \<^verbatim>\<open>warn\<close> option\<close>

text \<open>
  What a call throws or returns, and the heap it leaves, do not depend on the console
  the call starts with nor on the options: the options are read only where a line is
  written to the console.
\<close>

lemma observable_simps [simp]:
  "observable (Inl e) = Inl e" "observable (Inr (v, s)) = Inr (v, heap s)"
  by (simp_all add: observable_def)

lemma observableState_simps [simp]:
  "observableState (Inl e) = Inl e" "observableState (Inr s) = Inr (heap s)"
  by (simp_all add: observableState_def)

lemma observable_cases:
  assumes "observable r1 = observable r2"
  obtains (throws) e where "r1 = Inl e" "r2 = Inl e"
  | (returns) v t1 t2 where "r1 = Inr (v, t1)" "r2 = Inr (v, t2)" "heap t1 = heap t2"
  using assms by (cases r1; cases r2) (auto simp: observable_def split: prod.splits)

lemma observableState_cases:
  assumes "observableState r1 = observableState r2"
  obtains (throws) e where "r1 = Inl e" "r2 = Inl e"
  | (returns) t1 t2 where "r1 = Inr t1" "r2 = Inr t2" "heap t1 = heap t2"
  using assms by (cases r1; cases r2) (auto simp: observableState_def)

lemma catchFrom_observable:
  "observable (catchFrom instruction s1 r) = observable (catchFrom instruction s2 r)"
  by (auto simp: catchFrom_def throwUnexpectedError_def split: sum.splits error.splits prod.splits)

lemma extractSource_observable:
  assumes "heap s1 = heap s2"
  shows "observable (extractSource acc instruction sourceObject s1) =
         observable (extractSource acc instruction sourceObject s2)"
  unfolding extractSource_def assms
  by (auto split: from_field.splits intro: catchFrom_observable)

lemma produceValue_observable:
  assumes rec: "\<And>t1 t2 v n. heap t1 = heap t2 \<Longrightarrow> observable (rec1 t1 v n) = observable (rec2 t2 v n)"
    and "heap s1 = heap s2"
  shows "observable (produceValue rec1 o1 instruction resultObject sourceObject ex s1) =
         observable (produceValue rec2 o2 instruction resultObject sourceObject ex s2)"
proof (cases ex)
  case (Pair sourceValueExists sourceValue)
  show ?thesis
  proof (cases sourceValueExists)
    case False
    then show ?thesis
      using assms(2) by (simp add: Pair produceValue_def Let_def)
  next
    case True
    let ?n1 = "case instructions instruction of
                 Some nested \<Rightarrow> rec1 s1 sourceValue nested | None \<Rightarrow> Inr (sourceValue, s1)"
    let ?n2 = "case instructions instruction of
                 Some nested \<Rightarrow> rec2 s2 sourceValue nested | None \<Rightarrow> Inr (sourceValue, s2)"
    have "observable ?n1 = observable ?n2"
      using rec [OF assms(2)] assms(2) by (simp split: option.splits)
    then show ?thesis
    proof (cases rule: observable_cases)
      case (throws e)
      then show ?thesis by (simp add: Pair True produceValue_def)
    next
      case (returns v t1 t2)
      then show ?thesis
        by (simp add: Pair True produceValue_def split: transform_field.splits sum.splits prod.splits)
    qed
  qed
qed

lemma writeResult_observable:
  assumes "heap s1 = heap s2"
  shows "observableState (writeResult acc instruction resultObject toPath v s1) =
         observableState (writeResult acc instruction resultObject toPath v s2)"
  using assms
  by (simp add: writeResult_def throwUnexpectedError_def split: path.splits sum.splits error.splits)

lemma processInstruction_observable:
  assumes rec: "\<And>t1 t2 v n. heap t1 = heap t2 \<Longrightarrow> observable (rec1 t1 v n) = observable (rec2 t2 v n)"
    and "heap s1 = heap s2"
  shows "observableState (processInstruction rec1 acc o1 sourceObject resultObject instruction s1) =
         observableState (processInstruction rec2 acc o2 sourceObject resultObject instruction s2)"
proof (cases "(transformDefined (transform instruction) \<and> \<not> isFunction (transform instruction))
    \<or> \<not> fromDefined (from' instruction) \<or> to' instruction = None")
  case True
  then show ?thesis by (auto simp: processInstruction_def)
next
  case False
  then obtain toPath where valid: "\<not> (transformDefined (transform instruction) \<and> \<not> isFunction (transform instruction))"
    "fromDefined (from' instruction)" "to' instruction = Some toPath"
    by auto
  from extractSource_observable [OF assms(2), of acc instruction sourceObject]
  show ?thesis
  proof (cases rule: observable_cases)
    case (throws e)
    then show ?thesis using valid by (auto simp: processInstruction_def)
  next
    case ex: (returns ex t1 t2)
    have "observable (produceValue rec1 o1 instruction resultObject sourceObject ex t1) =
          observable (produceValue rec2 o2 instruction resultObject sourceObject ex t2)"
      using ex(3) by (intro produceValue_observable rec)
    then show ?thesis
    proof (cases rule: observable_cases)
      case (throws e)
      then show ?thesis using valid ex by (auto simp: processInstruction_def)
    next
      case (returns v u1 u2)
      then show ?thesis
        using valid ex writeResult_observable [OF returns(3), of acc instruction resultObject toPath v]
        by (auto simp: processInstruction_def)
    qed
  qed
qed

lemma forEachInstruction_observable:
  assumes body: "\<And>i t1 t2. heap t1 = heap t2 \<Longrightarrow>
      observableState (body1 i t1) = observableState (body2 i t2)"
    and "heap s1 = heap s2"
  shows "observableState (forEachInstruction body1 is s1) =
         observableState (forEachInstruction body2 is s2)"
  using assms(2)
proof (induction "is" arbitrary: s1 s2)
  case Nil
  then show ?case by simp
next
  case (Cons i "is")
  from body [OF Cons.prems, of i] show ?case
  proof (cases rule: observableState_cases)
    case (throws e)
    then show ?thesis by simp
  next
    case (returns t1 t2)
    then show ?thesis using Cons.IH [OF returns(3)] by simp
  qed
qed

lemma mapElements_observable:
  assumes f: "\<And>x t1 t2. heap t1 = heap t2 \<Longrightarrow> observable (f1 t1 x) = observable (f2 t2 x)"
    and "heap s1 = heap s2"
  shows "observable (mapElements f1 xs s1) = observable (mapElements f2 xs s2)"
  using assms(2)
proof (induction xs arbitrary: s1 s2)
  case Nil
  then show ?case by simp
next
  case (Cons x xs)
  from f [OF Cons.prems, of x] show ?case
  proof (cases rule: observable_cases)
    case (throws e)
    then show ?thesis by simp
  next
    case (returns y t1 t2)
    from Cons.IH [OF returns(3)] show ?thesis
    proof (cases rule: observable_cases)
      case (throws e)
      then show ?thesis using returns by simp
    next
      case inner: (returns ys u1 u2)
      then show ?thesis using returns by simp
    qed
  qed
qed

lemma transformData_observable:
  "heap s1 = heap s2 \<Longrightarrow>
     observable (transformData depth acc o1 s1 sourceObject ins) =
     observable (transformData depth acc o2 s2 sourceObject ins)"
proof (induction depth arbitrary: s1 s2 sourceObject ins)
  case 0
  then show ?case by simp
next
  case (Suc depth)
  note heaps = Suc.prems
  show ?case
  proof (cases "isArray (heap s2) sourceObject")
    case True
    have "observable (mapElements (\<lambda>s' el. transformData depth acc o1 s' el ins)
                        (arrayElements (heap s2) sourceObject) s1) =
          observable (mapElements (\<lambda>s' el. transformData depth acc o2 s' el ins)
                        (arrayElements (heap s2) sourceObject) s2)"
      using heaps by (intro mapElements_observable Suc.IH)
    then show ?thesis
    proof (cases rule: observable_cases)
      case (throws e)
      then show ?thesis using True heaps by simp
    next
      case (returns rs t1 t2)
      then show ?thesis using True heaps by simp
    qed
  next
    case False
    show ?thesis
    proof (cases "isObject sourceObject")
      case nobj: False
      then show ?thesis using False heaps by simp
    next
      case True
      have "observableState (forEachInstruction
              (processInstruction (transformData depth acc o1) acc o1 sourceObject (length (heap s2)))
              (toArray ins) (s1\<lparr>heap := heap s2 @ [ObjectCell []]\<rparr>)) =
            observableState (forEachInstruction
              (processInstruction (transformData depth acc o2) acc o2 sourceObject (length (heap s2)))
              (toArray ins) (s2\<lparr>heap := heap s2 @ [ObjectCell []]\<rparr>))"
        by (rule forEachInstruction_observable, rule processInstruction_observable, rule Suc.IH)
          simp_all
      then show ?thesis
      proof (cases rule: observableState_cases)
        case (throws e)
        then show ?thesis using True False heaps by (simp add: Let_def)
      next
        case (returns t1 t2)
        then show ?thesis using True False heaps by (simp add: Let_def)
      qed
    qed
  qed
qed

text \<open>
  Claim C10. The \<^verbatim>\<open>warn\<close> option is observational only: with \<^verbatim>\<open>warn: true\<close> and with
  \<^verbatim>\<open>warn: false\<close> a call throws the same error or returns the same value and leaves the
  same heap, so the diagnostic never turns a missing extraction into a throw. Only the
  console differs: \<^verbatim>\<open>{}\<close> under \<^verbatim>\<open>{from: 'foo', to: 'bar', default: 'D'}\<close> with
  \<^verbatim>\<open>warn: true\<close> gives \<^verbatim>\<open>{bar: 'D'}\<close> and one line on the console.
\<close>

theorem warn_is_observational:
  "observable (transformData depth acc \<lparr>warn = True\<rparr> s sourceObject ins) =
   observable (transformData depth acc \<lparr>warn = False\<rparr> s sourceObject ins) \<and>
   transformData (Suc depth) specAccessor \<lparr>warn = True\<rparr>
       \<lparr>heap = [ObjectCell []], console = []\<rparr> (Ref 0)
       (Single (Instruction (FromPath (Path (DotPath ''foo''))) (Some (Path (DotPath ''bar'')))
                  None (TransformValue Undefined) (Str ''D''))) =
     Inr (Ref 1, \<lparr>heap = [ObjectCell [], ObjectCell [(''bar'', Str ''D'')]],
                  console = [''Value does not exist at: foo'']\<rparr>)"
proof -
  have "observable (transformData depth acc \<lparr>warn = True\<rparr> s sourceObject ins) =
        observable (transformData depth acc \<lparr>warn = False\<rparr> s sourceObject ins)"
    by (rule transformData_observable) simp
  moreover have "transformData (Suc depth) specAccessor \<lparr>warn = True\<rparr>
       \<lparr>heap = [ObjectCell []], console = []\<rparr> (Ref 0)
       (Single (Instruction (FromPath (Path (DotPath ''foo''))) (Some (Path (DotPath ''bar'')))
                  None (TransformValue Undefined) (Str ''D''))) =
     Inr (Ref 1, \<lparr>heap = [ObjectCell [], ObjectCell [(''bar'', Str ''D'')]],
                  console = [''Value does not exist at: foo'']\<rparr>)"
    by (simp add: model_defs)
  ultimately show ?thesis by blast
qed

subsection \<open>Errors of the path accessor\<close>














subsection \<open>Errors of the callbacks\<close>

text \<open>
  What the callbacks throw. Let the loop of a call on an object reach a valid instruction.
  An error thrown by its \<^verbatim>\<open>transform\<close> callback is thrown by the call as it is. An error
  thrown by its \<^verbatim>\<open>combine\<close> callback is thrown by the call as it is unless it is a
  \<^verbatim>\<open>DeepPropertyError\<close>, which is replaced. What the call on the nested instructions
  throws, and what the call on an element of an array source throws, is thrown by the
  outer call as it is, so the same holds for callbacks at any depth.
\<close>

theorem callback_errors_propagate:
  \<open>(isObject sourceObject \<and> \<not> isArray (heap s) sourceObject \<and>
    toArray ins = pre @ instruction # post \<and>
    forEachInstruction
      (processInstruction (transformData depth acc opts) acc opts sourceObject (length (heap s)))
      pre (s\<lparr>heap := heap s @ [ObjectCell []]\<rparr>) = Inr s1 \<and>
    \<not> (transformDefined (transform instruction) \<and> \<not> isFunction (transform instruction)) \<and>
    to' instruction = Some toPath \<longrightarrow>
      (transform instruction = TransformFunction f \<and>
       extractSource acc instruction sourceObject s1 = Inr ((True, v), s2) \<and>
       (case instructions instruction of
          Some nested \<Rightarrow> transformData depth acc opts s2 v nested
        | None \<Rightarrow> Inr (v, s2)) = Inr (v1, s3) \<and>
       f v1 (Ref (length (heap s))) sourceObject (heap s3) = Inl e \<longrightarrow>
         transformData (Suc depth) acc opts s sourceObject ins = Inl e) \<and>
      (from' instruction = FromPaths ps (Some c) \<and>
       mapE (extractProperty acc (heap s1) sourceObject) ps = Inr extracts \<and>
       list_all fst extracts \<and> c (map snd extracts) (heap s1) = Inl e \<and>
       (\<forall>m. e \<noteq> DeepPropertyError m) \<longrightarrow>
         transformData (Suc depth) acc opts s sourceObject ins = Inl e) \<and>
      (from' instruction = FromPaths ps (Some c) \<and>
       mapE (extractProperty acc (heap s1) sourceObject) ps = Inr extracts \<and>
       list_all fst extracts \<and> c (map snd extracts) (heap s1) = Inl (DeepPropertyError m) \<longrightarrow>
         transformData (Suc depth) acc opts s sourceObject ins =
           Inl (DataTransformError (''In "from": '' @ m) (Some instruction))) \<and>
      (extractSource acc instruction sourceObject s1 = Inr ((True, v), s2) \<and>
       instructions instruction = Some nested \<and>
       transformData depth acc opts s2 v nested = Inl e \<longrightarrow>
         transformData (Suc depth) acc opts s sourceObject ins = Inl e)) \<and>
   (isArray (heap s) sourceObject \<and> arrayElements (heap s) sourceObject = before @ x # after \<and>
    mapElements (\<lambda>s' sourceElement. transformData depth acc opts s' sourceElement ins) before s =
      Inr (results, t) \<and>
    transformData depth acc opts t x ins = Inl e \<longrightarrow>
      transformData (Suc depth) acc opts s sourceObject ins = Inl e)\<close>
proof -
  let ?step = "processInstruction (transformData depth acc opts) acc opts sourceObject
                 (length (heap s)) instruction s1"
  {
    assume obj: "isObject sourceObject" "\<not> isArray (heap s) sourceObject"
      "toArray ins = pre @ instruction # post"
      "forEachInstruction
        (processInstruction (transformData depth acc opts) acc opts sourceObject (length (heap s)))
        pre (s\<lparr>heap := heap s @ [ObjectCell []]\<rparr>) = Inr s1"
    and valid: "\<not> (transformDefined (transform instruction) \<and> \<not> isFunction (transform instruction))"
      "to' instruction = Some toPath"
    have thrown: "transformData (Suc depth) acc opts s sourceObject ins = Inl e'"
      if "?step = Inl e'" for e'
      using obj that by (rule transformData_throws_at)
    have extracted: "fromDefined (from' instruction)"
      if "extractSource acc instruction sourceObject s1 = Inr r" for r
      using that by (cases "from' instruction") (auto simp: fromDefined_def extractSource_def)
    have a: "transformData (Suc depth) acc opts s sourceObject ins = Inl e"
      if "transform instruction = TransformFunction f \<and>
       extractSource acc instruction sourceObject s1 = Inr ((True, v), s2) \<and>
       (case instructions instruction of
          Some nested \<Rightarrow> transformData depth acc opts s2 v nested
        | None \<Rightarrow> Inr (v, s2)) = Inr (v1, s3) \<and>
       f v1 (Ref (length (heap s))) sourceObject (heap s3) = Inl e"
    proof (rule thrown)
      from that extracted have "fromDefined (from' instruction)" by blast
      with that valid show "?step = Inl e"
        by (auto simp: processInstruction_def produceValue_def)
    qed
    have comb: "extractCombinedProperties acc (heap s1) sourceObject ps (Some c) =
        (case c (map snd extracts) (heap s1) of
           Inl e \<Rightarrow> Inl e | Inr (value, h') \<Rightarrow> Inr ((True, value), h'))"
      if "mapE (extractProperty acc (heap s1) sourceObject) ps = Inr extracts" "list_all fst extracts"
      unfolding extractCombinedProperties_def foldl_allExist foldl_allValues
      using that by simp
    have b: "transformData (Suc depth) acc opts s sourceObject ins = Inl e"
      if "from' instruction = FromPaths ps (Some c) \<and>
       mapE (extractProperty acc (heap s1) sourceObject) ps = Inr extracts \<and>
       list_all fst extracts \<and> c (map snd extracts) (heap s1) = Inl e \<and>
       (\<forall>m. e \<noteq> DeepPropertyError m)"
    proof (rule thrown)
      from that comb have "extractSource acc instruction sourceObject s1 = Inl e"
        by (cases e) (auto simp: extractSource_def catchFrom_def throwUnexpectedError_def)
      with that valid show "?step = Inl e"
        by (auto simp: processInstruction_def fromDefined_def)
    qed
    have c: \<open>transformData (Suc depth) acc opts s sourceObject ins =
           Inl (DataTransformError (''In "from": '' @ m) (Some instruction))\<close>
      if "from' instruction = FromPaths ps (Some c) \<and>
       mapE (extractProperty acc (heap s1) sourceObject) ps = Inr extracts \<and>
       list_all fst extracts \<and> c (map snd extracts) (heap s1) = Inl (DeepPropertyError m)"
    proof (rule thrown)
      from that comb have \<open>extractSource acc instruction sourceObject s1 =
          Inl (DataTransformError (''In "from": '' @ m) (Some instruction))\<close>
        by (auto simp: extractSource_def catchFrom_def)
      with that valid show \<open>?step = Inl (DataTransformError (''In "from": '' @ m) (Some instruction))\<close>
        by (auto simp: processInstruction_def fromDefined_def)
    qed
    have d: "transformData (Suc depth) acc opts s sourceObject ins = Inl e"
      if "extractSource acc instruction sourceObject s1 = Inr ((True, v), s2) \<and>
       instructions instruction = Some nested \<and>
       transformData depth acc opts s2 v nested = Inl e"
    proof (rule thrown)
      from that extracted have "fromDefined (from' instruction)" by blast
      with that valid show "?step = Inl e"
        by (auto simp: processInstruction_def produceValue_def)
    qed
    note a b c d
  }
  note object = this
  have array: "transformData (Suc depth) acc opts s sourceObject ins = Inl e"
    if "isArray (heap s) sourceObject \<and> arrayElements (heap s) sourceObject = before @ x # after \<and>
    mapElements (\<lambda>s' sourceElement. transformData depth acc opts s' sourceElement ins) before s =
      Inr (results, t) \<and>
    transformData depth acc opts t x ins = Inl e"
    using that by (simp add: mapElements_append)
  from object array show ?thesis by blast
qed

theorem callback_errors_propagate_witness:
  \<open>transformData (Suc 0) specAccessor \<lparr>warn = False\<rparr>
     \<lparr>heap = [ObjectCell [(''x'', Num 1)]], console = []\<rparr> (Ref 0)
     (Single (Instruction (FromPath (Path (DotPath ''x''))) (Some (Path (DotPath ''y''))) None
                (TransformFunction transformThrows) Undefined)) =
   Inl (Thrown (Str ''thrown by transform'')) \<and>
   transformData (Suc 0) specAccessor \<lparr>warn = False\<rparr>
     \<lparr>heap = [ObjectCell [(''x'', Num 1)]], console = []\<rparr> (Ref 0)
     (Single (Instruction (FromPaths [Path (DotPath ''x'')] (Some combineThrows))
                (Some (Path (DotPath ''y''))) None (TransformValue Undefined) Undefined)) =
   Inl (Thrown (Str ''thrown by combine'')) \<and>
   transformData (Suc 0) specAccessor \<lparr>warn = False\<rparr>
     \<lparr>heap = [ObjectCell [(''x'', Num 1)]], console = []\<rparr> (Ref 0)
     (Single (Instruction (FromPaths [Path (DotPath ''x'')] (Some combineThrowsPathError))
                (Some (Path (DotPath ''y''))) None (TransformValue Undefined) Undefined)) =
   Inl (DataTransformError ''In "from": thrown by combine''
          (Some (Instruction (FromPaths [Path (DotPath ''x'')] (Some combineThrowsPathError))
                   (Some (Path (DotPath ''y''))) None (TransformValue Undefined) Undefined))) \<and>
   transformData (Suc (Suc 0)) specAccessor \<lparr>warn = False\<rparr>
     \<lparr>heap = [ObjectCell [(''x'', Num 1)]], console = []\<rparr> (Ref 0)
     (Single (Instruction (FromPath PathNull) (Some (Path (DotPath ''y'')))
                (Some (Single (Instruction (FromPath (Path (DotPath ''x'')))
                                 (Some (Path (DotPath ''y''))) None
                                 (TransformFunction transformThrows) Undefined)))
                (TransformValue Undefined) Undefined)) =
   Inl (Thrown (Str ''thrown by transform'')) \<and>
   transformData (Suc (Suc 0)) specAccessor \<lparr>warn = False\<rparr>
     \<lparr>heap = [ArrayCell [(''0'', Ref 1)], ObjectCell [(''x'', Num 1)]], console = []\<rparr> (Ref 0)
     (Single (Instruction (FromPath (Path (DotPath ''x''))) (Some (Path (DotPath ''y''))) None
                (TransformFunction transformThrows) Undefined)) =
   Inl (Thrown (Str ''thrown by transform''))\<close>
proof -
  let ?opts = "\<lparr>warn = False\<rparr>"
  let ?s = "\<lparr>heap = [ObjectCell [(''x'', Num 1)]], console = []\<rparr>"
  let ?s1 = "\<lparr>heap = [ObjectCell [(''x'', Num 1)], ObjectCell []], console = []\<rparr>"
  let ?a = "\<lparr>heap = [ArrayCell [(''0'', Ref 1)], ObjectCell [(''x'', Num 1)]], console = []\<rparr>"
  let ?i = "Instruction (FromPath (Path (DotPath ''x''))) (Some (Path (DotPath ''y''))) None
                (TransformFunction transformThrows) Undefined"
  let ?b = "Instruction (FromPaths [Path (DotPath ''x'')] (Some combineThrows))
                (Some (Path (DotPath ''y''))) None (TransformValue Undefined) Undefined"
  let ?c = "Instruction (FromPaths [Path (DotPath ''x'')] (Some combineThrowsPathError))
                (Some (Path (DotPath ''y''))) None (TransformValue Undefined) Undefined"
  let ?d = "Instruction (FromPath PathNull) (Some (Path (DotPath ''y''))) (Some (Single ?i))
                (TransformValue Undefined) Undefined"
  have pre: "isObject (Ref 0) \<and> \<not> isArray (heap ?s) (Ref 0) \<and>
    toArray (Single j) = [] @ j # [] \<and>
    forEachInstruction
      (processInstruction (transformData depth specAccessor ?opts) specAccessor ?opts (Ref 0)
         (length (heap ?s)))
      [] (?s\<lparr>heap := heap ?s @ [ObjectCell []]\<rparr>) = Inr ?s1" for j depth
    by (simp add: isObject_def isArray_def lookupCell_def toArray_def)
  have valid: "\<not> (transformDefined (transform ?i) \<and> \<not> isFunction (transform ?i)) \<and>
      to' ?i = Some (Path (DotPath ''y''))"
    "\<not> (transformDefined (transform ?b) \<and> \<not> isFunction (transform ?b)) \<and>
      to' ?b = Some (Path (DotPath ''y''))"
    "\<not> (transformDefined (transform ?c) \<and> \<not> isFunction (transform ?c)) \<and>
      to' ?c = Some (Path (DotPath ''y''))"
    "\<not> (transformDefined (transform ?d) \<and> \<not> isFunction (transform ?d)) \<and>
      to' ?d = Some (Path (DotPath ''y''))"
    by (simp_all add: isFunction_def transformDefined_def)
  have call: "transform ?i = TransformFunction transformThrows \<and>
       extractSource specAccessor ?i (Ref 0) ?s1 = Inr ((True, Num 1), ?s1) \<and>
       (case instructions ?i of
          Some nested \<Rightarrow> transformData 0 specAccessor ?opts ?s1 (Num 1) nested
        | None \<Rightarrow> Inr (Num 1, ?s1)) = Inr (Num 1, ?s1) \<and>
       transformThrows (Num 1) (Ref (length (heap ?s))) (Ref 0) (heap ?s1) =
         Inl (Thrown (Str ''thrown by transform''))"
    by (simp add: model_defs transformThrows_def)
  have comb: "from' ?b = FromPaths [Path (DotPath ''x'')] (Some combineThrows) \<and>
       mapE (extractProperty specAccessor (heap ?s1) (Ref 0)) [Path (DotPath ''x'')] =
         Inr [(True, Num 1)] \<and>
       list_all fst [(True, Num 1)] \<and>
       combineThrows (map snd [(True, Num 1)]) (heap ?s1) = Inl (Thrown (Str ''thrown by combine'')) \<and>
       (\<forall>m. Thrown (Str ''thrown by combine'') \<noteq> DeepPropertyError m)"
    by (simp add: model_defs combineThrows_def)
  have wrapped: "from' ?c = FromPaths [Path (DotPath ''x'')] (Some combineThrowsPathError) \<and>
       mapE (extractProperty specAccessor (heap ?s1) (Ref 0)) [Path (DotPath ''x'')] =
         Inr [(True, Num 1)] \<and>
       list_all fst [(True, Num 1)] \<and>
       combineThrowsPathError (map snd [(True, Num 1)]) (heap ?s1) =
         Inl (DeepPropertyError ''thrown by combine'')"
    by (simp add: model_defs combineThrowsPathError_def)
  have nested: "extractSource specAccessor ?d (Ref 0) ?s1 = Inr ((True, Ref 0), ?s1) \<and>
       instructions ?d = Some (Single ?i) \<and>
       transformData (Suc 0) specAccessor ?opts ?s1 (Ref 0) (Single ?i) =
         Inl (Thrown (Str ''thrown by transform''))"
    by (simp add: model_defs transformThrows_def)
  have element: "isArray (heap ?a) (Ref 0) \<and> arrayElements (heap ?a) (Ref 0) = [] @ Ref 1 # [] \<and>
    mapElements (\<lambda>s' sourceElement. transformData (Suc 0) specAccessor ?opts s' sourceElement (Single ?i))
      [] ?a = Inr ([], ?a) \<and>
    transformData (Suc 0) specAccessor ?opts ?a (Ref 1) (Single ?i) =
      Inl (Thrown (Str ''thrown by transform''))"
    by (simp add: model_defs transformThrows_def)
  from callback_errors_propagate [where sourceObject = "Ref 0" and s = ?s and ins = "Single ?i"
      and pre = "[]" and instruction = ?i and post = "[]" and depth = 0 and acc = specAccessor
      and opts = ?opts and ?s1.0 = ?s1 and toPath = "Path (DotPath ''y'')" and f = transformThrows
      and v = "Num 1" and ?s2.0 = ?s1 and ?v1.0 = "Num 1" and ?s3.0 = ?s1
      and e = "Thrown (Str ''thrown by transform'')"] pre [of ?i 0] valid(1) call
  have 1: "transformData (Suc 0) specAccessor ?opts ?s (Ref 0) (Single ?i) =
      Inl (Thrown (Str ''thrown by transform''))"
    by blast
  from callback_errors_propagate [where sourceObject = "Ref 0" and s = ?s and ins = "Single ?b"
      and pre = "[]" and instruction = ?b and post = "[]" and depth = 0 and acc = specAccessor
      and opts = ?opts and ?s1.0 = ?s1 and toPath = "Path (DotPath ''y'')"
      and ps = "[Path (DotPath ''x'')]" and c = combineThrows and extracts = "[(True, Num 1)]"
      and e = "Thrown (Str ''thrown by combine'')"] pre [of ?b 0] valid(2) comb
  have 2: "transformData (Suc 0) specAccessor ?opts ?s (Ref 0) (Single ?b) =
      Inl (Thrown (Str ''thrown by combine''))"
    by blast
  from callback_errors_propagate [where sourceObject = "Ref 0" and s = ?s and ins = "Single ?c"
      and pre = "[]" and instruction = ?c and post = "[]" and depth = 0 and acc = specAccessor
      and opts = ?opts and ?s1.0 = ?s1 and toPath = "Path (DotPath ''y'')"
      and ps = "[Path (DotPath ''x'')]" and c = combineThrowsPathError
      and extracts = "[(True, Num 1)]" and m = "''thrown by combine''"] pre [of ?c 0] valid(3) wrapped
  have 3: \<open>transformData (Suc 0) specAccessor ?opts ?s (Ref 0) (Single ?c) =
      Inl (DataTransformError (''In "from": '' @ ''thrown by combine'') (Some ?c))\<close>
    by blast
  from callback_errors_propagate [where sourceObject = "Ref 0" and s = ?s and ins = "Single ?d"
      and pre = "[]" and instruction = ?d and post = "[]" and depth = "Suc 0" and acc = specAccessor
      and opts = ?opts and ?s1.0 = ?s1 and toPath = "Path (DotPath ''y'')"
      and v = "Ref 0" and ?s2.0 = ?s1 and nested = "Single ?i"
      and e = "Thrown (Str ''thrown by transform'')"] pre [of ?d "Suc 0"] valid(4) nested
  have 4: "transformData (Suc (Suc 0)) specAccessor ?opts ?s (Ref 0) (Single ?d) =
      Inl (Thrown (Str ''thrown by transform''))"
    by blast
  from callback_errors_propagate [where sourceObject = "Ref 0" and s = ?a and ins = "Single ?i"
      and depth = "Suc 0" and acc = specAccessor and opts = ?opts and before = "[]"
      and x = "Ref 1" and after = "[]" and results = "[]" and t = ?a
      and e = "Thrown (Str ''thrown by transform'')"] element
  have 5: "transformData (Suc (Suc 0)) specAccessor ?opts ?a (Ref 0) (Single ?i) =
      Inl (Thrown (Str ''thrown by transform''))"
    by blast
  have w3: \<open>transformData (Suc 0) specAccessor ?opts ?s (Ref 0) (Single ?c) =
      Inl (DataTransformError ''In "from": thrown by combine'' (Some ?c))\<close>
    unfolding 3 by simp
  from 1 2 w3 4 5 show ?thesis by blast
qed

text \<open>
  Claim C8 says that every error a \<^verbatim>\<open>combine\<close> or \<^verbatim>\<open>transform\<close> callback throws leaves the
  call unmodified. \<^verbatim>\<open>combine\<close> is called inside the \<^verbatim>\<open>try\<close> block of the extraction, whose
  \<^verbatim>\<open>catch\<close> clause is written for the accessor: a \<^verbatim>\<open>combine\<close> that throws a
  \<^verbatim>\<open>DeepPropertyError\<close> has it replaced by the \<^verbatim>\<open>DataTransformError\<close> \<^verbatim>\<open>In "from": ...\<close>,
  where a \<^verbatim>\<open>transform\<close> that throws the same error has it pass.
\<close>

theorem combine_path_error_is_replaced:
  \<open>transformData (Suc 0) specAccessor \<lparr>warn = False\<rparr> \<lparr>heap = [ObjectCell []], console = []\<rparr>
     (Ref 0)
     (Single (Instruction (FromPaths [PathNull] (Some combineThrowsPathError))
                (Some (Path (DotPath ''out''))) None (TransformValue Undefined) Undefined)) =
   Inl (DataTransformError ''In "from": thrown by combine''
          (Some (Instruction (FromPaths [PathNull] (Some combineThrowsPathError))
                   (Some (Path (DotPath ''out''))) None (TransformValue Undefined) Undefined)))\<close>
  by (simp add: model_defs combineThrowsPathError_def)

end
